theory Spec2Isabelle
  imports Complex_Main "HOL-Library.Word" "HOL-Library.Signed_Division"
begin

unbundle bit_operations_syntax

section \<open>Data model (decimal.go, context.go)\<close>

text \<open>
  \<^verbatim>\<open>type form uint8\<close>: the tag of a decimal. The constants are bit patterns and the code
  tests them with \<open>&\<close>, \<open>|\<close>, \<open>^\<close> and \<open>\<le>\<close>, so the tag is an 8-bit word. Names that
  clash with HOL constants carry the suffix \<open>_form\<close>.
\<close>

type_synonym form = "8 word"

definition zero_form :: form where "zero_form = 0"
definition sign_form :: form where "sign_form = 1"
definition nzero :: form where "nzero = 1"
definition finite_form :: form where "finite_form = 2"
definition snan :: form where "snan = 4"
definition qnan :: form where "qnan = 8"
definition nan :: form where "nan = 12"
definition pinf :: form where "pinf = 16"
definition ninf :: form where "ninf = 17"
definition inf_form :: form where "inf_form = 16"

lemmas form_defs =
  zero_form_def sign_form_def nzero_def finite_form_def snan_def qnan_def nan_def pinf_def
  ninf_def inf_form_def

text \<open>The seven tags a decimal is ever assigned.\<close>

definition assignable :: "form \<Rightarrow> bool" where
  "assignable f \<longleftrightarrow> f \<in> {zero_form, nzero, finite_form, snan, qnan, pinf, ninf}"

text \<open>\<^verbatim>\<open>type OperatingMode uint8\<close> with \<open>Go = 0\<close>, \<open>GDA = 1\<close>; any other byte is an invalid mode.\<close>

type_synonym OperatingMode = "8 word"

definition Go :: OperatingMode where "Go = 0"
definition GDA :: OperatingMode where "GDA = 1"

text \<open>\<^verbatim>\<open>type RoundingMode uint8\<close>, numbered by \<open>iota\<close>.\<close>

type_synonym RoundingMode = "8 word"

definition ToNearestEven :: RoundingMode where "ToNearestEven = 0"
definition ToNearestAway :: RoundingMode where "ToNearestAway = 1"
definition ToZero :: RoundingMode where "ToZero = 2"
definition AwayFromZero :: RoundingMode where "AwayFromZero = 3"
definition ToNegativeInf :: RoundingMode where "ToNegativeInf = 4"
definition ToPositiveInf :: RoundingMode where "ToPositiveInf = 5"

lemmas rounding_defs =
  ToNearestEven_def ToNearestAway_def ToZero_def AwayFromZero_def ToNegativeInf_def
  ToPositiveInf_def

text \<open>\<^verbatim>\<open>type Condition uint32\<close>, one bit each (\<open>1 << iota\<close>).\<close>

type_synonym Condition = "32 word"

definition Clamped :: Condition where "Clamped = 1"
definition ConversionSyntax :: Condition where "ConversionSyntax = 2"
definition DivisionByZero :: Condition where "DivisionByZero = 4"
definition DivisionImpossible :: Condition where "DivisionImpossible = 8"
definition DivisionUndefined :: Condition where "DivisionUndefined = 16"
definition Inexact :: Condition where "Inexact = 32"
definition InsufficientStorage :: Condition where "InsufficientStorage = 64"
definition InvalidContext :: Condition where "InvalidContext = 128"
definition InvalidOperation :: Condition where "InvalidOperation = 256"
definition Overflow :: Condition where "Overflow = 512"
definition Rounded :: Condition where "Rounded = 1024"
definition Subnormal :: Condition where "Subnormal = 2048"
definition Underflow :: Condition where "Underflow = 4096"

lemmas condition_defs =
  Clamped_def ConversionSyntax_def DivisionByZero_def DivisionImpossible_def
  DivisionUndefined_def Inexact_def InsufficientStorage_def InvalidContext_def
  InvalidOperation_def Overflow_def Rounded_def Subnormal_def Underflow_def

text \<open>
  Go \<^verbatim>\<open>error\<close> values. \<open>ErrNaN\<close> is the package's own error type (the one \<open>signal\<close> panics
  with in Go mode); \<open>ErrorString\<close> stands for \<^verbatim>\<open>errors.New\<close> and \<^verbatim>\<open>fmt.Errorf\<close> values;
  \<open>NumError\<close> for \<^verbatim>\<open>*strconv.NumError\<close> (\<open>True\<close>: \<^verbatim>\<open>ErrRange\<close>, \<open>False\<close>: \<^verbatim>\<open>ErrSyntax\<close>);
  \<open>RuntimeError\<close> for a panic of the Go runtime (index out of range, division by zero).
\<close>

datatype error =
    ErrNaN string
  | ErrorString string
  | NumError bool
  | RuntimeError string

record Context =
  OperatingMode :: OperatingMode
  precision :: int
  Traps :: Condition
  Conditions :: Condition
  Err :: "error option"
  RoundingMode :: RoundingMode

text \<open>
  \<^verbatim>\<open>type Big struct\<close>. \<open>unscaled\<close> is a \<^verbatim>\<open>big.Int\<close> (an unbounded integer), \<open>compact\<close> an
  \<^verbatim>\<open>int64\<close> and \<open>scale\<close> an \<^verbatim>\<open>int32\<close>, both kept as integers in their range with the
  wrap-around written where the code can overflow.
\<close>

record Big =
  Context :: Context
  unscaled :: int
  compact :: int
  scale :: int
  form :: form

definition MaxInt64 :: int where "MaxInt64 = 2 ^ 63 - 1"
definition MinInt64 :: int where "MinInt64 = - (2 ^ 63)"
definition MaxInt32 :: int where "MaxInt32 = 2 ^ 31 - 1"
definition MinInt32 :: int where "MinInt32 = - (2 ^ 31)"
definition MaxScale :: int where "MaxScale = MaxInt32"
definition MinScale :: int where "MinScale = MinInt32"
definition DefaultPrecision :: int where "DefaultPrecision = 16"
definition noPrecision :: int where "noPrecision = - 1"

text \<open>Conversion to \<^verbatim>\<open>int64\<close> and \<^verbatim>\<open>int32\<close>: two's complement wrap-around.\<close>

definition wrap64 :: "int \<Rightarrow> int" where
  "wrap64 i = (i + 2 ^ 63) mod 2 ^ 64 - 2 ^ 63"

definition wrap32 :: "int \<Rightarrow> int" where
  "wrap32 i = (i + 2 ^ 31) mod 2 ^ 32 - 2 ^ 31"

text \<open>
  Decimals are handled through pointers (\<^verbatim>\<open>*Big\<close>) and the receiver may alias an operand,
  so the operations work on a store of decimals. A call either returns (every method that
  returns \<^verbatim>\<open>*Big\<close> returns its receiver) or panics; the store is kept in both cases,
  because a panic does not undo the writes made before it.
\<close>

type_synonym ptr = nat
type_synonym heap = "ptr \<Rightarrow> Big"

datatype outcome = Returns heap | Panics error heap

definition heap_of :: "outcome \<Rightarrow> heap" where
  "heap_of r = (case r of Returns h \<Rightarrow> h | Panics e h \<Rightarrow> h)"

definition returns :: "outcome \<Rightarrow> bool" where
  "returns r = (case r of Returns h \<Rightarrow> True | Panics e h \<Rightarrow> False)"

definition andThen :: "outcome \<Rightarrow> (heap \<Rightarrow> outcome) \<Rightarrow> outcome" where
  "andThen r k = (case r of Returns h \<Rightarrow> k h | Panics e h \<Rightarrow> Panics e h)"

text \<open>Field assignments \<^verbatim>\<open>z.form = f\<close>, \<^verbatim>\<open>z.compact = c\<close>, ...\<close>

definition set_form :: "ptr \<Rightarrow> form \<Rightarrow> heap \<Rightarrow> heap" where
  "set_form z f h = h(z := (h z)\<lparr>form := f\<rparr>)"

definition set_compact :: "ptr \<Rightarrow> int \<Rightarrow> heap \<Rightarrow> heap" where
  "set_compact z c h = h(z := (h z)\<lparr>compact := c\<rparr>)"

definition set_unscaled :: "ptr \<Rightarrow> int \<Rightarrow> heap \<Rightarrow> heap" where
  "set_unscaled z u h = h(z := (h z)\<lparr>unscaled := u\<rparr>)"

definition set_scale :: "ptr \<Rightarrow> int \<Rightarrow> heap \<Rightarrow> heap" where
  "set_scale z s h = h(z := (h z)\<lparr>scale := s\<rparr>)"

definition set_Context :: "ptr \<Rightarrow> Context \<Rightarrow> heap \<Rightarrow> heap" where
  "set_Context z c h = h(z := (h z)\<lparr>Context := c\<rparr>)"

lemmas set_defs = set_form_def set_compact_def set_unscaled_def set_scale_def set_Context_def

section \<open>Context (context.go)\<close>

definition Context_Precision :: "Context \<Rightarrow> int" where
  "Context_Precision c =
     (if precision c = 0 then DefaultPrecision
      else if precision c = noPrecision then 0
      else precision c)"

definition SetPrecision :: "int \<Rightarrow> Context \<Rightarrow> Context" where
  "SetPrecision prec c =
     (if prec = 0 then c\<lparr>precision := noPrecision\<rparr> else c\<lparr>precision := prec\<rparr>)"

section \<open>Bytes and decimal digits\<close>

text \<open>
  Byte strings are \<open>string\<close>s; \<open>byte\<close> is the numeric value of a byte. \<open>decimal\<close> is the
  text of a natural number in base ten without leading zeros, as \<^verbatim>\<open>strconv.AppendUint\<close>,
  \<^verbatim>\<open>strconv.Itoa\<close> and the verb \<^verbatim>\<open>%d\<close> of the Go library write it.
\<close>

definition byte :: "char \<Rightarrow> nat" where
  "byte c = of_char c"

definition digitChar :: "nat \<Rightarrow> char" where
  "digitChar d = char_of (byte CHR ''0'' + d)"

fun decimal :: "nat \<Rightarrow> string" where
  "decimal n = (if n < 10 then [digitChar n] else decimal (n div 10) @ [digitChar (n mod 10)])"

declare decimal.simps [simp del]

section \<open>Signalling (decimal.go)\<close>

text \<open>
  \<^verbatim>\<open>func (x *Big) signal(c Condition, err error) *Big\<close>. The error may be \<^verbatim>\<open>nil\<close>
  (\<open>None\<close>). In GDA mode the condition word is assigned, not or-ed.
\<close>

definition signal :: "ptr \<Rightarrow> Condition \<Rightarrow> error option \<Rightarrow> heap \<Rightarrow> outcome" where
  "signal x c err h =
     (let ctx = Context (h x) in
      if OperatingMode ctx = Go then
        (case err of
           Some (ErrNaN m) \<Rightarrow> Panics (ErrNaN m) h
         | _ \<Rightarrow> Returns h)
      else if OperatingMode ctx = GDA then
        (let ctx1 = ctx\<lparr>Conditions := c\<rparr>;
             ctx2 = (if c AND Traps ctx1 \<noteq> 0 then ctx1\<lparr>Err := err\<rparr> else ctx1)
         in Returns (set_Context x ctx2 h))
      else
        (let ctx1 = ctx\<lparr>Conditions := c OR InvalidContext\<rparr>;
             ctx2 = ctx1\<lparr>Err := Some (ErrorString (''invalid OperatingMode: ''
                                      @ decimal (unat (OperatingMode ctx))))\<rparr>
         in Returns (set_form x qnan (set_Context x ctx2 h))))"

text \<open>
  \<^verbatim>\<open>func (z *Big) checkNaNs(x, y *Big, op string) (Condition, error)\<close>: the condition, the
  error and the store after the write to \<open>z.form\<close>.
\<close>

definition checkNaNs :: "ptr \<Rightarrow> ptr \<Rightarrow> ptr \<Rightarrow> string \<Rightarrow> heap \<Rightarrow> Condition \<times> error option \<times> heap" where
  "checkNaNs z x y op h =
     (let f = (form (h x) OR form (h y)) AND nan in
      if f = 0 then (0, None, h)
      else
        (let cond = (if f AND snan \<noteq> 0 then InvalidOperation else 0)
         in (cond, Some (ErrNaN (op @ '' with NaN as an operand'')), set_form z qnan h)))"

definition errOverflow :: error where
  "errOverflow = ErrorString ''decimal: overflow: scale is too large''"

definition errUnderflow :: error where
  "errUnderflow = ErrorString ''decimal: underflow: scale is too small''"

text \<open>\<^verbatim>\<open>func (z *Big) xflow(over, neg bool) *Big\<close>\<close>

definition xflow :: "ptr \<Rightarrow> bool \<Rightarrow> bool \<Rightarrow> heap \<Rightarrow> outcome" where
  "xflow z over neg h =
     (if over then
        signal z (Overflow OR Inexact OR Rounded) (Some errOverflow)
          (if neg then set_form z ninf h else set_form z pinf h)
      else
        (let h1 = set_scale z MinScale h;
             h2 = (if neg then set_form z nzero h1 else set_form z zero_form h1)
         in signal z (Underflow OR Inexact OR Rounded OR Subnormal) (Some errUnderflow) h2))"

text \<open>
  Modelled from the spec: the constant \<^verbatim>\<open>c.Inflated\<close> (package \<^verbatim>\<open>internal/c\<close>), the
  reserved value of \<open>compact\<close> that marks the magnitude as held in \<open>unscaled\<close>. It is the
  smallest \<^verbatim>\<open>int64\<close> (the code's \<open>Sign\<close> speaks of \<^verbatim>\<open>-1 << 63\<close>).
\<close>

definition Inflated :: int where "Inflated = MinInt64"

definition isCompact :: "Big \<Rightarrow> bool" where
  "isCompact x \<longleftrightarrow> compact x \<noteq> Inflated"

definition isInflated :: "Big \<Rightarrow> bool" where
  "isInflated x \<longleftrightarrow> \<not> isCompact x"

text \<open>
  Modelled from the spec: \<^verbatim>\<open>arith.Abs\<close> (package \<^verbatim>\<open>internal/arith\<close>), the absolute value of
  an \<^verbatim>\<open>int64\<close> in \<^verbatim>\<open>int64\<close>.
\<close>

definition arith_Abs :: "int \<Rightarrow> int" where
  "arith_Abs x = wrap64 \<bar>x\<bar>"

section \<open>Helpers of the internal packages\<close>

text \<open>
  The packages \<^verbatim>\<open>internal/arith\<close>, \<^verbatim>\<open>internal/arith/checked\<close> and
  \<^verbatim>\<open>internal/arith/pow\<close> are used by the source but are not part of it. Each helper
  is modelled by what its name and its uses say: native-width arithmetic that reports
  overflow through its second result, and digit counts.
\<close>

definition in64 :: "int \<Rightarrow> bool" where
  "in64 i \<longleftrightarrow> MinInt64 \<le> i \<and> i \<le> MaxInt64"

definition in32 :: "int \<Rightarrow> bool" where
  "in32 i \<longleftrightarrow> MinInt32 \<le> i \<and> i \<le> MaxInt32"

text \<open>Modelled from the spec: \<^verbatim>\<open>checked.Add\<close>, \<^verbatim>\<open>checked.Sub\<close>, \<^verbatim>\<open>checked.Mul\<close> on
  \<^verbatim>\<open>int64\<close> ("checked-overflow arithmetic"): the wrapped result and whether it is exact.\<close>

definition checked_Add :: "int \<Rightarrow> int \<Rightarrow> int \<times> bool" where
  "checked_Add x y = (wrap64 (x + y), in64 (x + y))"

definition checked_Sub :: "int \<Rightarrow> int \<Rightarrow> int \<times> bool" where
  "checked_Sub x y = (wrap64 (x - y), in64 (x - y))"

definition checked_Mul :: "int \<Rightarrow> int \<Rightarrow> int \<times> bool" where
  "checked_Mul x y = (wrap64 (x * y), in64 (x * y))"

text \<open>Modelled from the spec: \<^verbatim>\<open>checked.Add32\<close>, \<^verbatim>\<open>checked.Sub32\<close>, the same on
  \<^verbatim>\<open>int32\<close> (the scale arithmetic).\<close>

definition checked_Add32 :: "int \<Rightarrow> int \<Rightarrow> int \<times> bool" where
  "checked_Add32 x y = (wrap32 (x + y), in32 (x + y))"

definition checked_Sub32 :: "int \<Rightarrow> int \<Rightarrow> int \<times> bool" where
  "checked_Sub32 x y = (wrap32 (x - y), in32 (x - y))"

text \<open>Modelled from the spec: \<^verbatim>\<open>pow.Ten64\<close>, the power of ten as an \<^verbatim>\<open>int64\<close> when it
  fits, and \<^verbatim>\<open>pow.BigTen\<close>, the power of ten as a \<^verbatim>\<open>big.Int\<close>.\<close>

definition pow_Ten64 :: "int \<Rightarrow> int \<times> bool" where
  "pow_Ten64 n = (if 0 \<le> n \<and> n \<le> 18 then (10 ^ nat n, True) else (0, False))"

definition pow_BigTen :: "int \<Rightarrow> int" where
  "pow_BigTen n = 10 ^ nat n"

text \<open>Modelled from the spec: \<^verbatim>\<open>checked.MulPow10\<close> ("inflate the lower-scale operand's
  magnitude by the needed power of ten, attempting native-width arithmetic with overflow
  checks first") and \<^verbatim>\<open>checked.MulBigPow10\<close> ("falling back to arbitrary-precision
  multiplication").\<close>

definition checked_MulPow10 :: "int \<Rightarrow> int \<Rightarrow> int \<times> bool" where
  "checked_MulPow10 x n =
     (if in64 (x * 10 ^ nat n) then (x * 10 ^ nat n, True) else (0, False))"

definition checked_MulBigPow10 :: "int \<Rightarrow> int \<Rightarrow> int" where
  "checked_MulBigPow10 x n = x * 10 ^ nat n"

text \<open>Modelled from the spec: \<^verbatim>\<open>arith.Length\<close> and \<^verbatim>\<open>arith.BigLength\<close>, the number of
  decimal digits of the magnitude ("digit counts"); zero has one digit.\<close>

fun ndigits :: "nat \<Rightarrow> nat" where
  "ndigits n = (if n < 10 then 1 else Suc (ndigits (n div 10)))"

declare ndigits.simps [simp del]

definition arith_Length :: "int \<Rightarrow> int" where
  "arith_Length x = int (ndigits (nat \<bar>x\<bar>))"

definition arith_BigLength :: "int \<Rightarrow> int" where
  "arith_BigLength x = int (ndigits (nat \<bar>x\<bar>))"

text \<open>
  Modelled from the spec: \<^verbatim>\<open>needsInc\<close> and \<^verbatim>\<open>needsIncBig\<close> (same package, not among the
  sources): "use the division remainder to decide, per the active rounding mode, whether to
  adjust the truncated quotient up or down (odd/even parity of the last retained digit
  breaks ties for nearest-even)". \<open>y\<close> is the divisor and \<open>r\<close> the remainder.
\<close>

definition needsInc :: "RoundingMode \<Rightarrow> int \<Rightarrow> int \<Rightarrow> bool \<Rightarrow> bool \<Rightarrow> bool" where
  "needsInc mode y r pos isodd =
     (if mode = AwayFromZero then True
      else if mode = ToZero then False
      else if mode = ToPositiveInf then pos
      else if mode = ToNegativeInf then \<not> pos
      else if mode = ToNearestEven then 2 * \<bar>r\<bar> > \<bar>y\<bar> \<or> (2 * \<bar>r\<bar> = \<bar>y\<bar> \<and> isodd)
      else if mode = ToNearestAway then 2 * \<bar>r\<bar> \<ge> \<bar>y\<bar>
      else False)"

section \<open>Predicates on a decimal\<close>

text \<open>\<^verbatim>\<open>func (x *Big) Precision() int\<close>\<close>

definition Big_Precision :: "Big \<Rightarrow> int" where
  "Big_Precision x =
     (if form x \<noteq> finite_form then (if form x \<le> nzero then 1 else 0)
      else if isCompact x then arith_Length (compact x)
      else arith_BigLength (unscaled x))"

text \<open>\<^verbatim>\<open>func (x *Big) Signbit() bool\<close>\<close>

definition Signbit :: "Big \<Rightarrow> bool" where
  "Signbit x =
     (if form x \<noteq> finite_form then form x = ninf \<or> form x = nzero
      else if isCompact x then compact x < 0
      else unscaled x < 0)"

text \<open>\<^verbatim>\<open>func (x *Big) Sign() int\<close> (both branches of the architecture test give the sign of
  \<open>compact\<close>).\<close>

definition Sign :: "Big \<Rightarrow> int" where
  "Sign x =
     (if form x \<noteq> finite_form then
        (if form x = zero_form \<or> form x = nzero then 0
         else if form x = ninf then - 1
         else if form x = pinf then 1
         else 0)
      else if isCompact x then sgn (compact x)
      else sgn (unscaled x))"

section \<open>Rounding to a precision\<close>

text \<open>
  \<^verbatim>\<open>func (z *Big) simplify() *Big\<close>. The loop divides \<open>compact\<close> by ten, so its magnitude is
  the measure.
\<close>

function simplify_loop :: "ptr \<Rightarrow> int \<Rightarrow> heap \<Rightarrow> outcome" where
  "simplify_loop z prec h =
     (if arith_Abs (compact (h z)) \<ge> 10 \<and> scale (h z) > prec then
        (if compact (h z) mod 2 \<noteq> 0 \<or> compact (h z) smod 10 \<noteq> 0 then Returns h
         else
           (let h1 = set_compact z (compact (h z) sdiv 10) h;
                h2 = set_Context z
                       ((Context (h1 z))\<lparr>Conditions := Conditions (Context (h1 z)) OR Rounded\<rparr>) h1;
                (s, ok) = checked_Sub32 (scale (h2 z)) 1;
                h3 = set_scale z s h2
            in if \<not> ok then xflow z False (compact (h3 z) < 0) h3
               else simplify_loop z prec h3))
      else Returns h)"
  by pat_completeness auto

lemma sdiv10_smaller: "c \<noteq> 0 \<Longrightarrow> \<bar>c sdiv 10\<bar> < \<bar>c :: int\<bar>"
proof -
  assume "c \<noteq> 0"
  then have "\<bar>c\<bar> div 10 < \<bar>c\<bar>"
    by (intro int_div_less_self) auto
  then show ?thesis
    by (auto simp: signed_divide_int_def abs_mult sgn_if abs_if split: if_splits)
qed

lemma arith_Abs_ge10_nonzero: "10 \<le> arith_Abs c \<Longrightarrow> c \<noteq> 0"
  by (auto simp: arith_Abs_def wrap64_def)

termination simplify_loop
proof (relation "measure (\<lambda>(z, prec, h). nat \<bar>compact (h z)\<bar>)", goal_cases)
  case 1
  show ?case by simp
next
  case (2 z prec h h1 h2 p s ok h3)
  then have "compact (h z) \<noteq> 0"
    using arith_Abs_ge10_nonzero by blast
  moreover have "compact (h3 z) = compact (h z) sdiv 10"
    using 2 by (simp add: set_defs)
  ultimately show ?case
    using sdiv10_smaller [of "compact (h z)"] by simp
qed

definition simplify :: "ptr \<Rightarrow> heap \<Rightarrow> outcome" where
  "simplify z h =
     (if scale (h z) = Context_Precision (Context (h z)) then Returns h
      else simplify_loop z (Context_Precision (Context (h z))) h)"

text \<open>
  \<^verbatim>\<open>func (z *Big) simplifyBig() *Big\<close>. \<^verbatim>\<open>big.Int.And\<close> with 1 is the parity,
  \<^verbatim>\<open>big.Int.Mod\<close> and \<^verbatim>\<open>big.Int.Div\<close> are Euclidean, as \<open>mod\<close> and \<open>div\<close> are for a
  positive divisor.
\<close>

function simplifyBig_loop :: "ptr \<Rightarrow> int \<Rightarrow> heap \<Rightarrow> outcome" where
  "simplifyBig_loop z prec h =
     (if \<bar>unscaled (h z)\<bar> \<ge> 10 \<and> scale (h z) > prec then
        (if unscaled (h z) mod 2 \<noteq> 1 \<or> unscaled (h z) mod 10 \<noteq> 0 then Returns h
         else
           (let h1 = set_unscaled z (unscaled (h z) div 10) h;
                h2 = set_Context z
                       ((Context (h1 z))\<lparr>Conditions := Conditions (Context (h1 z)) OR Rounded\<rparr>) h1;
                (s, ok) = checked_Sub32 (scale (h2 z)) 1;
                h3 = set_scale z s h2
            in if \<not> ok then xflow z False (Sign (h3 z) < 0) h3
               else simplifyBig_loop z prec h3))
      else Returns h)"
  by pat_completeness auto

termination simplifyBig_loop
proof (relation "measure (\<lambda>(z, prec, h). nat \<bar>unscaled (h z)\<bar>)", goal_cases)
  case 1
  show ?case by simp
next
  case (2 z prec h h1 h2 p s ok h3)
  then have "unscaled (h z) mod 2 = 1" and "unscaled (h z) mod 10 = 0"
    by auto
  then have False
    by presburger
  then show ?case ..
qed

definition simplifyBig :: "ptr \<Rightarrow> heap \<Rightarrow> outcome" where
  "simplifyBig z h =
     (if scale (h z) = Context_Precision (Context (h z)) then Returns h
      else if in64 (unscaled (h z)) then simplify z (set_compact z (unscaled (h z)) h)
      else simplifyBig_loop z (Context_Precision (Context (h z))) h)"

text \<open>
  \<^verbatim>\<open>func (z *Big) quoAndRound(x, y int64) *Big\<close>. \<open>/\<close> and \<open>%\<close> truncate towards zero
  (\<open>sdiv\<close>, \<open>smod\<close>) and a zero divisor is a run-time panic. The third argument of
  \<open>needsInc\<close> is the constant expression \<^verbatim>\<open>sign > 0\<close>, which is true.
\<close>

definition quoAndRound :: "ptr \<Rightarrow> int \<Rightarrow> int \<Rightarrow> heap \<Rightarrow> outcome" where
  "quoAndRound z x y h =
     (let h1 = set_form z finite_form h in
      if y = 0 then Panics (RuntimeError ''integer divide by zero'') h1
      else
        (let h2 = set_compact z (wrap64 (x sdiv y)) h1 in
         if RoundingMode (Context (h2 z)) = ToZero then Returns h2
         else
           (let r = x smod y in
            if r = 0 then simplify z h2
            else if needsInc (RoundingMode (Context (h2 z))) y r (sign_form > 0)
                      (compact (h2 z) mod 2 \<noteq> 0) then
              (if (x < 0) = (y < 0) then Returns (set_compact z (wrap64 (compact (h2 z) + 1)) h2)
               else Returns (set_compact z (wrap64 (compact (h2 z) - 1)) h2))
            else Returns h2)))"

text \<open>
  A \<^verbatim>\<open>*big.Int\<close> argument is either a fresh integer or the \<open>unscaled\<close> field of a decimal
  in the store (\<open>Round\<close> passes \<^verbatim>\<open>&z.unscaled\<close>), which is read when it is used.
\<close>

datatype bigref = NewInt int | UnscaledOf ptr

definition deref :: "bigref \<Rightarrow> heap \<Rightarrow> int" where
  "deref b h = (case b of NewInt i \<Rightarrow> i | UnscaledOf p \<Rightarrow> unscaled (h p))"

text \<open>\<^verbatim>\<open>func (z *Big) quoBigAndRound(x, y *big.Int) *Big\<close>. \<^verbatim>\<open>QuoRem\<close> truncates.\<close>

definition quoBigAndRound :: "ptr \<Rightarrow> bigref \<Rightarrow> bigref \<Rightarrow> heap \<Rightarrow> outcome" where
  "quoBigAndRound z x y h =
     (let h1 = set_compact z Inflated (set_form z finite_form h) in
      if deref y h1 = 0 then Panics (RuntimeError ''division by zero'') h1
      else
        (let q = deref x h1 sdiv deref y h1;
             r = deref x h1 smod deref y h1;
             h2 = set_unscaled z q h1
         in
         if RoundingMode (Context (h2 z)) = ToZero
            \<and> scale (h2 z) = Context_Precision (Context (h2 z)) then Returns h2
         else if r = 0 then simplifyBig z h2
         else
           (let isodd = (unscaled (h2 z) mod 2 \<noteq> 0) in
            if needsInc (RoundingMode (Context (h2 z))) (deref y h2) r (sign_form > 0) isodd then
              (if (deref x h2 < 0) = (deref y h2 < 0)
               then Returns (set_unscaled z (unscaled (h2 z) + 1) h2)
               else Returns (set_unscaled z (unscaled (h2 z) - 1) h2))
            else Returns h2)))"

text \<open>\<^verbatim>\<open>func (z *Big) Round(n int32) *Big\<close>\<close>

definition Round :: "ptr \<Rightarrow> int \<Rightarrow> heap \<Rightarrow> outcome" where
  "Round z n h =
     (if n \<le> 0 \<or> form (h z) \<noteq> finite_form then Returns h
      else
        (let zp = Big_Precision (h z) in
         if n \<ge> zp then Returns h
         else
           (let (shift, ok) = checked_Sub zp n in
            if \<not> ok then xflow z (zp < 0) (Signbit (h z)) h
            else if shift \<le> 0 then Returns h
            else
              (let ctx = SetPrecision n (Context (h z));
                   h1 = set_Context z (ctx\<lparr>Conditions := Conditions ctx OR Rounded\<rparr>) h;
                   h2 = set_scale z (wrap32 (scale (h1 z) - wrap32 shift)) h1
               in
               if isCompact (h2 z) then
                 (case pow_Ten64 shift of
                    (val, True) \<Rightarrow> quoAndRound z (compact (h2 z)) val h2
                  | (val, False) \<Rightarrow>
                      quoBigAndRound z (UnscaledOf z) (NewInt (pow_BigTen shift))
                        (set_unscaled z (compact (h2 z)) h2))
               else quoBigAndRound z (UnscaledOf z) (NewInt (pow_BigTen shift)) h2))))"

text \<open>\<^verbatim>\<open>func (z *Big) round() *Big\<close>\<close>

definition round_ctx :: "ptr \<Rightarrow> heap \<Rightarrow> outcome" where
  "round_ctx z h =
     (let zp = Context_Precision (Context (h z)) in
      if zp \<noteq> 0 \<and> OperatingMode (Context (h z)) = GDA then Round z zp h
      else Returns h)"

text \<open>\<^verbatim>\<open>func (z *Big) Set(x *Big) *Big\<close>\<close>

definition Set :: "ptr \<Rightarrow> ptr \<Rightarrow> heap \<Rightarrow> outcome" where
  "Set z x h =
     (if z \<noteq> x then
        (let h1 = set_compact z (compact (h x)) h;
             h2 = set_form z (form (h1 x)) h1;
             h3 = set_scale z (scale (h2 x)) h2;
             h4 = (if isInflated (h3 x) then set_unscaled z (unscaled (h3 x)) h3 else h3)
         in Round z (Context_Precision (Context (h4 z))) h4)
      else Returns h)"

section \<open>Abs and Neg\<close>

text \<open>\<^verbatim>\<open>func (z *Big) Abs(x *Big) *Big\<close>. The last assignment is to \<open>x.form\<close>.\<close>

definition Abs :: "ptr \<Rightarrow> ptr \<Rightarrow> heap \<Rightarrow> outcome" where
  "Abs z x h =
     (if form (h x) = finite_form then
        (let h1 = (if isCompact (h x) then set_compact z (arith_Abs (compact (h x))) h
                   else set_unscaled z \<bar>unscaled (h x)\<bar> h);
             h2 = set_scale z (scale (h1 x)) h1;
             h3 = set_form z finite_form h2
         in Returns h3)
      else
        (case checkNaNs z x x ''abs'' h of
           (c, Some err, h1) \<Rightarrow> signal z c (Some err) h1
         | (c, None, h1) \<Rightarrow> Returns (set_form x (form (h1 x) AND NOT sign_form) h1)))"

text \<open>\<^verbatim>\<open>func (z *Big) Neg(x *Big) *Big\<close>\<close>

definition Neg :: "ptr \<Rightarrow> ptr \<Rightarrow> heap \<Rightarrow> outcome" where
  "Neg z x h =
     (if form (h x) = finite_form then
        (let h1 = (if isCompact (h x) then set_compact z (wrap64 (- compact (h x))) h
                   else set_compact z Inflated (set_unscaled z (- unscaled (h x)) h));
             h2 = set_scale z (scale (h1 x)) h1;
             h3 = set_form z (form (h2 x)) h2
         in Returns h3)
      else
        (case checkNaNs z x x ''negation'' h of
           (c, Some err, h1) \<Rightarrow> signal z c (Some err) h1
         | (c, None, h1) \<Rightarrow> Returns (set_form z (form (h1 x) XOR sign_form) h1)))"

section \<open>Add\<close>

text \<open>\<^verbatim>\<open>func (z *Big) addCompact(x, y *Big) *Big\<close>. Every read is from the store as it is
  at that point, so that a receiver that aliases an operand is followed exactly.\<close>

definition addCompact :: "ptr \<Rightarrow> ptr \<Rightarrow> ptr \<Rightarrow> heap \<Rightarrow> heap" where
  "addCompact z x y h =
     (if scale (h x) = scale (h y) then
        (let h1 = set_scale z (scale (h x)) h;
             (sum, ok) = checked_Add (compact (h1 x)) (compact (h1 y))
         in
         if ok then
           (let h2 = (if sum = 0 then set_form z zero_form h1 else h1)
            in set_compact z sum h2)
         else
           (let xt = compact (h1 x); yt = compact (h1 y);
                h2 = set_unscaled z (xt + yt) h1;
                h3 = (if unscaled (h2 z) = 0 then set_form z zero_form h2 else h2)
            in set_compact z Inflated h3))
      else
        (let (hi, lo) = (if scale (h x) < scale (h y) then (y, x) else (x, y));
             inc = wrap32 (scale (h hi) - scale (h lo));
             h1 = set_scale z (scale (h hi)) h;
             (scaledLo, ok) = checked_MulPow10 (compact (h1 lo)) inc;
             (sum, ok2) = checked_Add (compact (h1 hi)) scaledLo
         in
         if ok \<and> ok2 then set_compact z sum h1
         else
           (let scaled = checked_MulBigPow10 (compact (h1 lo)) inc;
                unscaled' = compact (h1 hi);
                h2 = set_unscaled z (scaled + unscaled') h1;
                h3 = (if unscaled (h2 z) = 0 then set_form z zero_form h2 else h2)
            in set_compact z Inflated h3)))"

text \<open>\<^verbatim>\<open>func (z *Big) addBig(x, y *Big) *Big\<close>\<close>

definition addBig :: "ptr \<Rightarrow> ptr \<Rightarrow> ptr \<Rightarrow> heap \<Rightarrow> heap" where
  "addBig z x y h =
     (let xb = (if isCompact (h x) then NewInt (compact (h x)) else UnscaledOf x);
          yb = (if isCompact (h y) then NewInt (compact (h y)) else UnscaledOf y);
          h1 = set_compact z Inflated h
      in
      if scale (h1 x) = scale (h1 y) then
        (let h2 = set_scale z (scale (h1 x)) h1;
             h3 = set_unscaled z (deref xb h2 + deref yb h2) h2
         in if unscaled (h3 z) = 0 then set_form z zero_form h3 else h3)
      else
        (let his = scale (h1 x); los = scale (h1 y);
             (hi, lo, his', los') = (if his < los then (yb, xb, los, his) else (xb, yb, his, los));
             lo' = checked_MulBigPow10 (deref lo h1) (wrap32 (his' - los'));
             h2 = set_unscaled z (deref hi h1 + lo') h1;
             h3 = (if unscaled (h2 z) = 0 then set_form z zero_form h2 else h2)
         in set_scale z his' h3))"

text \<open>\<^verbatim>\<open>func (z *Big) Add(x, y *Big) *Big\<close>\<close>

definition Add :: "ptr \<Rightarrow> ptr \<Rightarrow> ptr \<Rightarrow> heap \<Rightarrow> outcome" where
  "Add z x y h =
     (if form (h x) = finite_form \<and> form (h y) = finite_form then
        (let h1 = set_form z finite_form h in
         if isCompact (h1 x) \<and> isCompact (h1 y) then round_ctx z (addCompact z x y h1)
         else round_ctx z (addBig z x y h1))
      else
        (case checkNaNs z x y ''addition'' h of
           (c, Some err, h1) \<Rightarrow> signal z c (Some err) h1
         | (c, None, h1) \<Rightarrow>
             if form (h1 x) AND form (h1 y) = inf_form \<and> form (h1 x) XOR form (h1 y) = sign_form then
               signal z InvalidOperation
                 (Some (ErrNaN ''addition of infinities with opposing signs''))
                 (set_form z qnan h1)
             else if form (h1 x) \<le> nzero \<and> form (h1 y) \<le> nzero then
               Returns (set_form z (form (h1 x) AND form (h1 y)) h1)
             else if form (h1 x) AND inf_form \<noteq> 0 \<or> form (h1 y) \<le> nzero then Set z x h1
             else Set z y h1))"

section \<open>Sub\<close>

text \<open>\<^verbatim>\<open>func (z *Big) subBig(x, y *Big) *Big\<close>\<close>

definition subBig :: "ptr \<Rightarrow> ptr \<Rightarrow> ptr \<Rightarrow> heap \<Rightarrow> heap" where
  "subBig z x y h =
     (let xb = (if isCompact (h x) then compact (h x) else unscaled (h x));
          yb = (if isCompact (h y) then compact (h y) else unscaled (h y));
          (xb', yb', h1) =
            (if scale (h x) = scale (h y) then (xb, yb, set_scale z (scale (h x)) h)
             else if scale (h x) < scale (h y) then
               (checked_MulBigPow10 xb (wrap32 (scale (h y) - scale (h x))), yb,
                set_scale z (scale (h y)) h)
             else
               (xb, checked_MulBigPow10 yb (wrap32 (scale (h x) - scale (h y))),
                set_scale z (scale (h x)) h));
          h2 = set_unscaled z (xb' - yb') h1;
          h3 = (if unscaled (h2 z) = 0 then set_form z zero_form h2 else h2)
      in set_compact z Inflated h3)"

text \<open>\<^verbatim>\<open>func (z *Big) subCompact(x, y *Big) *Big\<close>. The result of \<^verbatim>\<open>checked.Sub\<close> is
  stored in \<open>z.compact\<close> before its flag is tested.\<close>

definition subCompact :: "ptr \<Rightarrow> ptr \<Rightarrow> ptr \<Rightarrow> heap \<Rightarrow> heap" where
  "subCompact z x y h =
     (let xc = compact (h x); yc = compact (h y);
          finish = (\<lambda>xc yc h1.
            let (d, ok) = checked_Sub xc yc;
                h2 = set_compact z d h1
            in if ok then (if compact (h2 z) = 0 then set_form z zero_form h2 else h2)
               else subBig z x y h2)
      in
      if scale (h x) = scale (h y) then finish xc yc (set_scale z (scale (h x)) h)
      else if scale (h x) < scale (h y) then
        (let (xc', ok) = checked_MulPow10 xc (wrap32 (scale (h y) - scale (h x)))
         in if \<not> ok then subBig z x y h
            else finish xc' yc (set_scale z (scale (h y)) h))
      else
        (let (yc', ok) = checked_MulPow10 yc (wrap32 (scale (h x) - scale (h y)))
         in if \<not> ok then subBig z x y h
            else finish xc yc' (set_scale z (scale (h x)) h)))"

text \<open>\<^verbatim>\<open>func (z *Big) Sub(x, y *Big) *Big\<close>\<close>

definition Sub :: "ptr \<Rightarrow> ptr \<Rightarrow> ptr \<Rightarrow> heap \<Rightarrow> outcome" where
  "Sub z x y h =
     (if form (h x) = finite_form \<and> form (h y) = finite_form then
        (let h1 = set_form z finite_form h in
         if isCompact (h1 x) \<and> isCompact (h1 y) then round_ctx z (subCompact z x y h1)
         else round_ctx z (subBig z x y h1))
      else
        (case checkNaNs z x y ''subtraction'' h of
           (c, Some err, h1) \<Rightarrow> signal z c (Some err) h1
         | (c, None, h1) \<Rightarrow>
             if form (h1 x) AND inf_form \<noteq> 0 \<and> form (h1 x) = form (h1 y) then
               signal z InvalidOperation
                 (Some (ErrNaN ''subtraction of infinities with equal signs''))
                 (set_form z qnan h1)
             else if form (h1 x) \<le> nzero \<and> form (h1 y) \<le> nzero then
               Returns (set_form z zero_form h1)
             else if form (h1 x) AND inf_form \<noteq> 0 \<or> form (h1 y) \<le> nzero then Set z x h1
             else Neg z y h1))"

section \<open>Mul\<close>

text \<open>\<^verbatim>\<open>func (z *Big) mulCompact(x, y *Big) *Big\<close>. On a failed scale addition the second
  argument of \<open>xflow\<close> is the literal \<^verbatim>\<open>true\<close>.\<close>

definition mulCompact :: "ptr \<Rightarrow> ptr \<Rightarrow> ptr \<Rightarrow> heap \<Rightarrow> outcome" where
  "mulCompact z x y h =
     (let (scale', ok) = checked_Add32 (scale (h x)) (scale (h y)) in
      if \<not> ok then xflow z (scale (h x) > 0) True h
      else
        (let h1 = set_scale z scale' h;
             (prod, ok2) = checked_Mul (compact (h1 x)) (compact (h1 y));
             h2 = (if ok2 then set_compact z prod h1
                   else set_compact z Inflated
                          (set_unscaled z (compact (h1 x) * compact (h1 y)) h1))
         in Returns (set_form z finite_form h2)))"

text \<open>\<^verbatim>\<open>func (z *Big) mulBig(x, y *Big) *Big\<close>\<close>

definition mulBig :: "ptr \<Rightarrow> ptr \<Rightarrow> ptr \<Rightarrow> heap \<Rightarrow> outcome" where
  "mulBig z x y h =
     (let xb = (if isCompact (h x) then compact (h x) else unscaled (h x));
          yb = (if isCompact (h y) then compact (h y) else unscaled (h y));
          h1 = set_compact z Inflated (set_unscaled z (xb * yb) h);
          (scale', ok) = checked_Add32 (scale (h1 x)) (scale (h1 y))
      in
      if \<not> ok then xflow z (scale (h1 x) > 0) True h1
      else Returns (set_form z finite_form (set_scale z scale' h1)))"

text \<open>\<^verbatim>\<open>func (z *Big) Mul(x, y *Big) *Big\<close>\<close>

definition Mul :: "ptr \<Rightarrow> ptr \<Rightarrow> ptr \<Rightarrow> heap \<Rightarrow> outcome" where
  "Mul z x y h =
     (if form (h x) = finite_form \<and> form (h y) = finite_form then
        (let h1 = set_form z finite_form h in
         if isCompact (h1 x) \<and> isCompact (h1 y) then andThen (mulCompact z x y h1) (round_ctx z)
         else andThen (mulBig z x y h1) (round_ctx z))
      else
        (case checkNaNs z x y ''multiplication'' h of
           (c, Some err, h1) \<Rightarrow> signal z c (Some err) h1
         | (c, None, h1) \<Rightarrow>
             if form (h1 x) \<le> nzero \<and> form (h1 y) AND inf_form \<noteq> 0
                \<or> form (h1 x) AND inf_form \<noteq> 0 \<and> form (h1 y) \<le> nzero then
               signal z InvalidOperation
                 (Some (ErrNaN ''multiplication of zero with infinity''))
                 (set_form z qnan h1)
             else if form (h1 x) AND inf_form \<noteq> 0 \<or> form (h1 y) AND inf_form \<noteq> 0 then
               (if Sign (h1 x) \<noteq> Sign (h1 y) then Returns (set_form z ninf h1)
                else Returns (set_form z pinf h1))
             else Returns (set_form z zero_form h1)))"

section \<open>Quo\<close>

text \<open>
  \<^verbatim>\<open>func (z *Big) Quo(x, y *Big) *Big\<close>. The division of two finite decimals
  (\<^verbatim>\<open>quoCompact\<close>, \<^verbatim>\<open>quoBig\<close>) rests on \<^verbatim>\<open>cmpNorm\<close> and \<^verbatim>\<open>cmpNormBig\<close>, which are not
  among the sources; the two methods are parameters \<open>qc\<close> and \<open>qb\<close> of the model. Everything
  else is the code: the write to \<open>z.form\<close> comes before the last read of \<open>x.form\<close>.
\<close>

definition Quo ::
  "(ptr \<Rightarrow> ptr \<Rightarrow> ptr \<Rightarrow> heap \<Rightarrow> outcome) \<Rightarrow> (ptr \<Rightarrow> ptr \<Rightarrow> ptr \<Rightarrow> heap \<Rightarrow> outcome) \<Rightarrow>
   ptr \<Rightarrow> ptr \<Rightarrow> ptr \<Rightarrow> heap \<Rightarrow> outcome" where
  "Quo qc qb z x y h =
     (if form (h x) = finite_form \<and> form (h y) = finite_form then
        (if isCompact (h x) \<and> isCompact (h y) then qc z x y h else qb z x y h)
      else
        (case checkNaNs z x y ''division'' h of
           (c, Some err, h1) \<Rightarrow> signal z c (Some err) h1
         | (c, None, h1) \<Rightarrow>
             if form (h1 x) \<le> nzero \<and> form (h1 y) \<le> nzero
                \<or> (form (h1 x) AND inf_form \<noteq> 0 \<and> form (h1 y) AND inf_form \<noteq> 0) then
               signal z InvalidOperation
                 (Some (ErrNaN ''division of zero by zero or infinity by infinity''))
                 (set_form z qnan h1)
             else if form (h1 x) \<le> nzero \<or> form (h1 y) AND inf_form \<noteq> 0 then
               Returns (set_form z zero_form h1)
             else
               (let xs = Signbit (h1 x); ys = Signbit (h1 y);
                    h2 = (if xs \<noteq> ys \<and> (xs \<or> ys) then set_form z ninf h1
                          else set_form z pinf h1)
                in if form (h2 x) AND inf_form \<noteq> 0 then Returns h2
                   else signal z DivisionByZero (Some (ErrorString ''division by zero'')) h2)))"

section \<open>Cmp\<close>

text \<open>\<^verbatim>\<open>big.Int.Cmp\<close> and the three-way comparison of two \<^verbatim>\<open>int64\<close>.\<close>

definition cmp_int :: "int \<Rightarrow> int \<Rightarrow> int" where
  "cmp_int a b = (if a > b then 1 else if a < b then - 1 else 0)"

text \<open>
  \<^verbatim>\<open>func (z *Big) Cmp(x *Big) int\<close>: the outcome and the returned integer (which means
  something only when the call returns). The receiver is one of the two operands handed to
  \<open>checkNaNs\<close>, and \<open>checkNaNs\<close> writes to its form. The \<^verbatim>\<open>debug\<close> panic is left out.
\<close>

definition Cmp :: "ptr \<Rightarrow> ptr \<Rightarrow> heap \<Rightarrow> outcome \<times> int" where
  "Cmp z x h =
     (if z = x then (Returns h, 0)
      else
        (case checkNaNs z z x ''comparison'' h of
           (c, Some err, h1) \<Rightarrow> (signal z c (Some err) h1, 0)
         | (c, None, h1) \<Rightarrow>
             (let zs = Sign (h1 z); xs = Sign (h1 x) in
              if zs > xs then (Returns h1, 1)
              else if zs < xs then (Returns h1, - 1)
              else if zs = 0 \<and> xs = 0 then (Returns h1, 0)
              else if scale (h1 z) = scale (h1 x) then
                (if isCompact (h1 z) \<and> isCompact (h1 x) then
                   (Returns h1, cmp_int (compact (h1 z)) (compact (h1 x)))
                 else if isInflated (h1 z) \<and> isInflated (h1 x) then
                   (Returns h1, cmp_int (unscaled (h1 z)) (unscaled (h1 x)))
                 else if isCompact (h1 z) then
                   (Returns h1, cmp_int (compact (h1 z)) (unscaled (h1 x)))
                 else (Returns h1, cmp_int (unscaled (h1 z)) (compact (h1 x))))
              else
                (let zl = Big_Precision (h1 z) - scale (h1 z);
                     xl = Big_Precision (h1 x) - scale (h1 x)
                 in
                 if zl < xl then (Returns h1, - zs)
                 else if zl > xl then (Returns h1, zs)
                 else
                   (let swap = scale (h1 z) < scale (h1 x);
                        (hi, zm, zc, lo, xm, xc) =
                          (if swap then
                             (scale (h1 x), unscaled (h1 x), compact (h1 x),
                              scale (h1 z), unscaled (h1 z), compact (h1 z))
                           else
                             (scale (h1 z), unscaled (h1 z), compact (h1 z),
                              scale (h1 x), unscaled (h1 x), compact (h1 x)));
                        (diff, ok) = checked_Sub32 hi lo;
                        (xm1, xc1) =
                          (if xc \<noteq> Inflated then
                             (case checked_MulPow10 xc diff of
                                (nx, False) \<Rightarrow> (checked_MulBigPow10 xc diff, Inflated)
                              | (nx, True) \<Rightarrow> (xm, nx))
                           else (checked_MulBigPow10 xm diff, xc));
                        (zm2, zc2, xm2, xc2) =
                          (if swap then (xm1, xc1, zm, zc) else (zm, zc, xm1, xc1))
                    in
                    if zc2 \<noteq> Inflated then
                      (if xc2 \<noteq> Inflated then (Returns h1, cmp_int zc2 xc2)
                       else (Returns h1, cmp_int zc2 xm2))
                    else if xc2 \<noteq> Inflated then (Returns h1, cmp_int zm2 xc2)
                    else (Returns h1, cmp_int zm2 xm2))))))"

section \<open>Constructors\<close>

text \<open>The zero value of \<^verbatim>\<open>Context\<close> and of \<^verbatim>\<open>Big\<close> (\<^verbatim>\<open>new(Big)\<close>).\<close>

definition newContext :: Context where
  "newContext = \<lparr>OperatingMode = Go, precision = 0, Traps = 0, Conditions = 0, Err = None,
                  RoundingMode = ToNearestEven\<rparr>"

definition newBig :: Big where
  "newBig = \<lparr>Context = newContext, unscaled = 0, compact = 0, scale = 0, form = zero_form\<rparr>"

text \<open>\<^verbatim>\<open>func (z *Big) SetMantScale(value int64, scale int32) *Big\<close>\<close>

definition SetMantScale :: "ptr \<Rightarrow> int \<Rightarrow> int \<Rightarrow> heap \<Rightarrow> heap" where
  "SetMantScale z val sc h =
     (if val = 0 then set_form z zero_form h
      else
        (let h1 = set_scale z sc h;
             h2 = (if val = Inflated then set_unscaled z val h1 else h1)
         in set_form z finite_form (set_compact z val h2)))"

text \<open>\<^verbatim>\<open>func New(value int64, scale int32) *Big\<close>: the decimal it allocates.\<close>

definition New :: "int \<Rightarrow> int \<Rightarrow> Big" where
  "New val sc = SetMantScale 0 val sc (\<lambda>p. newBig) 0"

text \<open>\<^verbatim>\<open>func (x *Big) SetInf(signbit bool) *Big\<close> and \<^verbatim>\<open>func (z *Big) SetNaN(signal bool) *Big\<close>\<close>

definition SetInf :: "ptr \<Rightarrow> bool \<Rightarrow> heap \<Rightarrow> heap" where
  "SetInf x signbit h = (if signbit then set_form x ninf h else set_form x pinf h)"

definition SetNaN :: "ptr \<Rightarrow> bool \<Rightarrow> heap \<Rightarrow> heap" where
  "SetNaN z signal' h = (if signal' then set_form z snan h else set_form z qnan h)"

text \<open>A decimal with the given value in GDA mode (\<^verbatim>\<open>x.Context.OperatingMode = GDA\<close>).\<close>

definition inGDA :: "Big \<Rightarrow> Big" where
  "inGDA x = x\<lparr>Context := (Context x)\<lparr>OperatingMode := GDA\<rparr>\<rparr>"

text \<open>A store for examples: the decimals \<open>a\<close>, \<open>b\<close>, \<open>c\<close> at the addresses 0, 1, 2.\<close>

definition store3 :: "Big \<Rightarrow> Big \<Rightarrow> Big \<Rightarrow> heap" where
  "store3 a b c = (\<lambda>p. newBig)(0 := a, 1 := b, 2 := c)"

section \<open>Rounding a digit string (format.go)\<close>

text \<open>\<open>incr\<close> is the increment \<^verbatim>\<open>b[i]++\<close> of a byte (modulo 256).\<close>

definition incr :: "char \<Rightarrow> char" where
  "incr c = char_of (byte c + 1)"

text \<open>\<^verbatim>\<open>func allZeros(b []byte) bool\<close>\<close>

fun allZeros :: "string \<Rightarrow> bool" where
  "allZeros [] = True"
| "allZeros (c # cs) = (if c \<noteq> CHR ''0'' then False else allZeros cs)"

text \<open>
  The carry loop of \<open>roundString\<close>, \<^verbatim>\<open>for i--; i >= 0; i-- { ... }\<close>: the first argument
  is the number of positions still to visit, the next index being one less.
\<close>

fun carry :: "nat \<Rightarrow> string \<Rightarrow> string" where
  "carry 0 b = b"
| "carry (Suc i) b =
     (if b ! i \<noteq> CHR ''9'' then b[i := incr (b ! i)]
      else carry i (b[i := CHR ''0'']))"

text \<open>
  \<^verbatim>\<open>func roundString(b []byte, mode RoundingMode, pos bool, prec int) []byte\<close>. A negative
  \<open>prec\<close> panics in \<^verbatim>\<open>b[prec:]\<close>; with \<open>prec = 0\<close> and a nonzero string every path reads or
  writes \<^verbatim>\<open>b[-1]\<close> and panics. \<^verbatim>\<open>copy(b[1:], b)\<close> followed by \<^verbatim>\<open>b[0] = '1'\<close> and
  \<^verbatim>\<open>prec++\<close> returns the digit 1 followed by the first \<open>prec\<close> bytes.
\<close>

definition roundString :: "string \<Rightarrow> RoundingMode \<Rightarrow> bool \<Rightarrow> int \<Rightarrow> error + string" where
  "roundString b mode pos prec =
     (if prec \<ge> int (length b) then Inr b
      else if prec < 0 then Inl (RuntimeError ''slice bounds out of range'')
      else if allZeros (drop (nat prec) b) then Inr (take (nat prec) b)
      else if prec - 1 < 0 then Inl (RuntimeError ''index out of range'')
      else
        (let b1 = take (nat prec + 1) b;
             i = nat (prec - 1);
             up =
               (if mode = AwayFromZero then True
                else if mode = ToZero then False
                else if mode = ToPositiveInf then pos
                else if mode = ToNegativeInf then \<not> pos
                else if mode = ToNearestEven then
                  byte (b1 ! (i + 1)) > byte CHR ''5''
                  \<or> b1 ! (i + 1) = CHR ''5'' \<and> byte (b1 ! i) mod 2 \<noteq> 0
                else if mode = ToNearestAway then byte (b1 ! (i + 1)) \<ge> byte CHR ''5''
                else False);
             b2 = (if up then b1[i := incr (b1 ! i)] else b1)
         in
         if byte (b2 ! i) \<noteq> byte CHR ''9'' + 1 then Inr (take (nat prec) b2)
         else
           (let b3 = carry i (b2[i := CHR ''0'']) in
            if b3 ! 0 = CHR ''0'' then Inr (CHR ''1'' # take (nat prec) b3)
            else Inr (take (nat prec) b3))))"


text \<open>An ASCII decimal digit.\<close>

definition isDigit :: "char \<Rightarrow> bool" where
  "isDigit c \<longleftrightarrow> byte CHR ''0'' \<le> byte c \<and> byte c \<le> byte CHR ''9''"

section \<open>The number a decimal stands for\<close>

text \<open>
  The value of a decimal: not a number, an infinity with its sign (\<open>True\<close> for negative), or
  the rational magnitude times ten to the power minus scale; both zeros stand for 0. Two decimals are
  numerically equal when their values are equal.
\<close>

datatype dvalue = NaNval | Infinite bool | Number rat

definition magnitude :: "Big \<Rightarrow> int" where
  "magnitude x = (if isCompact x then compact x else unscaled x)"

definition valueOf :: "Big \<Rightarrow> dvalue" where
  "valueOf x =
     (if form x = finite_form then
        Number (if scale x \<ge> 0 then of_int (magnitude x) / 10 ^ nat (scale x)
                else of_int (magnitude x) * 10 ^ nat (- scale x))
      else if form x = zero_form \<or> form x = nzero then Number 0
      else if form x = pinf then Infinite False
      else if form x = ninf then Infinite True
      else NaNval)"




section \<open>Parsing (decimal.go, with the Go library functions it calls)\<close>

text \<open>The value of a decimal digit, and the number a digit string spells.\<close>

definition digitVal :: "char \<Rightarrow> nat" where
  "digitVal c = byte c - byte CHR ''0''"

text \<open>
  \<^verbatim>\<open>strconv.ParseUint(s, 10, bitSize)\<close> of the Go library: digits only, a syntax error at
  the first other byte, a range error as soon as the number passes \<open>maxVal\<close>.
\<close>

fun ParseUint_loop :: "nat \<Rightarrow> nat \<Rightarrow> string \<Rightarrow> nat \<times> error option" where
  "ParseUint_loop maxVal n [] = (n, None)"
| "ParseUint_loop maxVal n (c # cs) =
     (if \<not> isDigit c then (0, Some (NumError False))
      else if n * 10 + digitVal c > maxVal then (maxVal, Some (NumError True))
      else ParseUint_loop maxVal (n * 10 + digitVal c) cs)"

definition ParseUint :: "string \<Rightarrow> nat \<Rightarrow> nat \<times> error option" where
  "ParseUint s bitSize =
     (if s = [] then (0, Some (NumError False)) else ParseUint_loop (2 ^ bitSize - 1) 0 s)"

text \<open>\<^verbatim>\<open>strconv.ParseInt(s, 10, bitSize)\<close>: an optional sign, then \<open>ParseUint\<close>; out of range
  the nearest bound is returned with a range error.\<close>

definition ParseInt :: "string \<Rightarrow> nat \<Rightarrow> int \<times> error option" where
  "ParseInt s bitSize =
     (if s = [] then (0, Some (NumError False))
      else
        (let neg = (hd s = CHR ''-'');
             s1 = (if hd s = CHR ''+'' \<or> hd s = CHR ''-'' then tl s else s);
             (un, err) = ParseUint s1 bitSize;
             cutoff = (2::nat) ^ (bitSize - 1)
         in
         if err = Some (NumError False) then (0, err)
         else if \<not> neg \<and> un \<ge> cutoff then (int cutoff - 1, Some (NumError True))
         else if neg \<and> un > cutoff then (- int cutoff, Some (NumError True))
         else (if neg then - int un else int un, None)))"

text \<open>
  \<^verbatim>\<open>(*big.Int).SetString(s, 10)\<close>: an optional sign and at least one digit, nothing
  else. The receiver is assigned the digits read (the longest run of digits after the sign)
  before the rest of the string is looked at, so it is written also when the call reports
  failure: the result is the integer left in the receiver and the flag.
\<close>

definition BigInt_SetString :: "string \<Rightarrow> int \<times> bool" where
  "BigInt_SetString s =
     (let neg = (s \<noteq> [] \<and> hd s = CHR ''-'');
          s1 = (if s \<noteq> [] \<and> (hd s = CHR ''+'' \<or> hd s = CHR ''-'') then tl s else s);
          ds = takeWhile isDigit s1;
          n = int (foldl (\<lambda>n c. n * 10 + digitVal c) 0 ds)
      in (if neg then - n else n, ds \<noteq> [] \<and> ds = s1))"

text \<open>\<^verbatim>\<open>strings.LastIndexAny(s, chars)\<close>, \<^verbatim>\<open>strings.IndexByte(s, c)\<close> (\<open>- 1\<close> when there is
  none) and \<^verbatim>\<open>strings.Count(s, ".")\<close>, which is \<^const>\<open>count_list\<close>.\<close>

fun LastIndexAny_from :: "int \<Rightarrow> int \<Rightarrow> string \<Rightarrow> string \<Rightarrow> int" where
  "LastIndexAny_from i best [] chars = best"
| "LastIndexAny_from i best (c # cs) chars =
     LastIndexAny_from (i + 1) (if c \<in> set chars then i else best) cs chars"

definition LastIndexAny :: "string \<Rightarrow> string \<Rightarrow> int" where
  "LastIndexAny s chars = LastIndexAny_from 0 (- 1) s chars"

fun IndexByte :: "string \<Rightarrow> char \<Rightarrow> int" where
  "IndexByte [] c = - 1"
| "IndexByte (x # xs) c =
     (if x = c then 0 else (let r = IndexByte xs c in if r < 0 then - 1 else r + 1))"

text \<open>
  Modelled from the spec: \<^verbatim>\<open>parse.ParseSpecial\<close> (package \<^verbatim>\<open>internal/parse\<close>, not among
  the sources). "Grammar (case-insensitive): optional sign, then ... "inf"/"infinity"; or
  "nan"/"snan" with optional trailing diagnostic digits (accepted but ignored)". The doc
  comment of \<open>SetString\<close> also lists \<^verbatim>\<open>qNaN\<close>, which is taken as a quiet NaN.
\<close>

datatype Special = Invalid | QNaN | SNaN | PInf | NInf

definition toLower :: "char \<Rightarrow> char" where
  "toLower c = (if byte CHR ''A'' \<le> byte c \<and> byte c \<le> byte CHR ''Z'' then char_of (byte c + 32) else c)"

definition ParseSpecial :: "string \<Rightarrow> Special" where
  "ParseSpecial s =
     (let neg = (s \<noteq> [] \<and> hd s = CHR ''-'');
          s1 = (if s \<noteq> [] \<and> (hd s = CHR ''+'' \<or> hd s = CHR ''-'') then tl s else s);
          l = map toLower s1
      in
      if l = ''inf'' \<or> l = ''infinity'' then (if neg then NInf else PInf)
      else if take 3 l = ''nan'' \<and> list_all isDigit (drop 3 l) then QNaN
      else if take 4 l = ''qnan'' \<and> list_all isDigit (drop 4 l) then QNaN
      else if take 4 l = ''snan'' \<and> list_all isDigit (drop 4 l) then SNaN
      else Invalid)"

text \<open>
  \<^verbatim>\<open>func (z *Big) SetString(s string) (*Big, bool)\<close>, in the order of the code: the digits
  (after the exponent and the radix point are removed), the radix point, the exponent, and
  the special values. The result is the outcome and the returned flag.
\<close>

definition SetString_digits :: "ptr \<Rightarrow> string \<Rightarrow> int \<Rightarrow> heap \<Rightarrow> outcome \<times> bool" where
  "SetString_digits z s scale' h =
     (let h1 = set_form z finite_form h in
      if length s \<le> 19 \<and> snd (ParseInt s 64) = Some (NumError False) then
        (signal z ConversionSyntax (Some (NumError False))
           (set_form z qnan (set_compact z (fst (ParseInt s 64)) h1)), False)
      else
        (let (h2, err) =
               (if length s \<le> 19 then
                  (let (c, e) = ParseInt s 64;
                       ha = set_compact z c h1;
                       hb = (if e = None \<and> compact (ha z) = 0 then
                               (if s ! 0 = CHR ''-'' then set_form z nzero ha
                                else set_form z zero_form ha)
                             else ha);
                       hc = (if compact (hb z) = Inflated
                             then set_unscaled z (compact (hb z)) hb else hb)
                   in (hc, e))
                else (h1, None))
         in
         if (err = Some (NumError True) \<and> length s = 19) \<or> length s > 19 then
           (let (u, ok) = BigInt_SetString s;
                hu = set_unscaled z u h2
            in
            if \<not> ok then
              (signal z ConversionSyntax (Some (ErrorString ''SetString: invalid syntax'')) hu,
               False)
            else
              (let h3 = set_compact z Inflated hu;
                   h4 = (if unscaled (h3 z) = 0 then
                           (if s ! 0 = CHR ''-'' then set_form z nzero h3
                            else set_form z zero_form h3)
                         else h3)
               in (Returns (set_scale z scale' h4), True)))
         else (Returns (set_scale z scale' h2), True)))"

definition SetString_radix :: "ptr \<Rightarrow> string \<Rightarrow> int \<Rightarrow> heap \<Rightarrow> outcome \<times> bool" where
  "SetString_radix z s scale' h =
     (let n = count_list s CHR ''.'' in
      if n = 0 then SetString_digits z s scale' h
      else if n = 1 then
        (let i = IndexByte s CHR ''.'';
             s1 = take (nat i) s @ drop (nat i + 1) s;
             (sc, ok) = checked_Add32 scale' (wrap32 (int (length s1) - i))
         in if \<not> ok then (xflow z True (s1 ! 0 = CHR ''-'') h, False)
            else SetString_digits z s1 sc h)
      else
        (signal z ConversionSyntax
           (Some (ErrorString (''SetString: too many '' @ [CHR 0x27, CHR ''.'', CHR 0x27]
                               @ '' in input''))) h,
         False))"

definition SetString_exponent :: "ptr \<Rightarrow> string \<Rightarrow> heap \<Rightarrow> outcome \<times> bool" where
  "SetString_exponent z s h =
     (let i = LastIndexAny s ''Ee'' in
      if i > 0 then
        (case ParseInt (drop (nat i + 1) s) 32 of
           (eint, None) \<Rightarrow> SetString_radix z (take (nat i) s) (wrap32 (- wrap32 eint)) h
         | (eint, Some err) \<Rightarrow>
             if err = NumError False then
               (signal z ConversionSyntax (Some err) (set_form z qnan h), False)
             else (xflow z (eint < 0) (s ! 0 = CHR ''-'') h, False))
      else SetString_radix z s 0 h)"

definition SetString :: "ptr \<Rightarrow> string \<Rightarrow> heap \<Rightarrow> outcome \<times> bool" where
  "SetString z s h =
     (if s = [] then
        (signal z ConversionSyntax
           (Some (ErrorString (''SetString('' @ [CHR 0x22, CHR 0x22] @ '')''))) h, False)
      else
        (case ParseSpecial s of
           QNaN \<Rightarrow> (Returns (set_form z qnan h), True)
         | SNaN \<Rightarrow> (Returns (set_form z snan h), True)
         | PInf \<Rightarrow> (Returns (set_form z pinf h), True)
         | NInf \<Rightarrow> (Returns (set_form z ninf h), True)
         | Invalid \<Rightarrow> SetString_exponent z s h))"

section \<open>Formatting (format.go)\<close>

text \<open>\<^verbatim>\<open>strconv.Itoa\<close> of the Go library.\<close>

definition Itoa :: "int \<Rightarrow> string" where
  "Itoa i = (if i < 0 then CHR ''-'' # decimal (nat (- i)) else decimal (nat i))"

text \<open>\<^verbatim>\<open>func formatCompact(x int64) []byte\<close>: \<^verbatim>\<open>-x\<close> wraps and \<^verbatim>\<open>uint64(x)\<close> reads the
  result as unsigned.\<close>

definition formatCompact :: "int \<Rightarrow> string" where
  "formatCompact x = decimal (nat ((if x < 0 then wrap64 (- x) else x) mod 2 ^ 64))"

text \<open>\<^verbatim>\<open>func formatUnscaled(unscaled *big.Int) []byte\<close>: the text of the integer without
  its sign.\<close>

definition formatUnscaled :: "int \<Rightarrow> string" where
  "formatUnscaled u = decimal (nat \<bar>u\<bar>)"

text \<open>\<^verbatim>\<open>func trimIndex(b []byte) int\<close>\<close>

fun trimIndex :: "string \<Rightarrow> int" where
  "trimIndex [] = - 1"
| "trimIndex (c # cs) =
     (let r = trimIndex cs in
      if r > 0 then r + 1 else if c \<noteq> CHR ''0'' then 1 else - 1)"

text \<open>\<^verbatim>\<open>io.CopyN(f, zeroReader{}, n)\<close> writes \<open>n\<close> zeros, none when \<open>n\<close> is not positive.\<close>

definition zeros :: "int \<Rightarrow> string" where
  "zeros n = replicate (nat n) CHR ''0''"

text \<open>\<^verbatim>\<open>type formatter struct\<close> without its writer: what is written is the result of the
  functions. A \<open>sign_f\<close> of 0 means no sign flag.\<close>

record formatter =
  sign_f :: char
  prec_f :: int
  width_f :: int

definition noWidth :: int where "noWidth = - 1"
definition noPrec :: int where "noPrec = - 1"

definition normal_style :: nat where "normal_style = 0"
definition plain_style :: nat where "plain_style = 1"
definition sci_style :: nat where "sci_style = 2"

text \<open>\<^verbatim>\<open>func (f *formatter) formatSci(b []byte, adj int, e byte)\<close>\<close>

definition formatSci :: "formatter \<Rightarrow> string \<Rightarrow> int \<Rightarrow> char \<Rightarrow> string" where
  "formatSci f b adj e =
     [b ! 0]
     @ (if length b > 1 then
          (let b1 = tl b; i = trimIndex b1
           in CHR ''.'' # (if i \<ge> 0 \<and> i < int (length b1) then take (nat i) b1 else b1))
        else [])
     @ (if adj \<noteq> 0 then e # (if adj > 0 then ''+'' else []) @ Itoa adj else [])"

text \<open>\<^verbatim>\<open>func (f *formatter) formatPlain(b []byte, scale int)\<close>\<close>

definition formatPlain :: "formatter \<Rightarrow> string \<Rightarrow> int \<Rightarrow> string" where
  "formatPlain f b scale' =
     (let radix = int (length b) - scale' in
      if radix = 0 then
        ''0.'' @ (let i = trimIndex b in if i > 0 then take (nat i) b else b)
      else if radix > 0 then
        take (nat radix) b
        @ (let i = trimIndex (drop (nat radix) b)
           in if i > 0 then CHR ''.'' # take (nat i) (drop (nat radix) b) else [])
      else
        ''0.'' @ zeros (- radix)
        @ (let end' = (if prec_f f > noPrec \<and> prec_f f < int (length b) then prec_f f
                       else int (length b))
           in take (nat end') b))"

text \<open>
  \<^verbatim>\<open>func (f *formatter) format(x *Big, format, e byte)\<close> for a non-nil \<open>x\<close>: the text
  written and the outcome (an invalid operating mode signals on \<open>x\<close>). \<open>roundString\<close> is
  only called with a positive precision.
\<close>

definition format :: "formatter \<Rightarrow> ptr \<Rightarrow> nat \<Rightarrow> char \<Rightarrow> heap \<Rightarrow> string \<times> outcome" where
  "format f x style e h =
     (let m = form (h x); o' = OperatingMode (Context (h x)) in
      if m \<noteq> finite_form then
        (if o' = Go \<or> o' = GDA then
           (let zero_text = (if width_f f = noWidth then ''0'' else ''0.'' @ zeros (width_f f))
            in
            if m = nzero then (CHR ''-'' # zero_text, Returns h)
            else if m = zero_form then (zero_text, Returns h)
            else if m = snan then (if o' = Go then ''NaN'' else ''sNaN'', Returns h)
            else if m = qnan then (''NaN'', Returns h)
            else if m = pinf then (if o' = Go then ''+Inf'' else ''Infinity'', Returns h)
            else if m = ninf then (if o' = Go then ''-Inf'' else ''-Infinity'', Returns h)
            else ([], Returns h))
         else ([], signal x 0 None h))
      else
        (let neg = Signbit (h x);
             pre = (if neg then ''-'' else if sign_f f \<noteq> CHR 0x00 then [sign_f f] else []);
             b = (if isInflated (h x) then formatUnscaled (unscaled (h x))
                  else formatCompact (compact (h x)));
             rounded = (if prec_f f > 0
                        then roundString b (RoundingMode (Context (h x))) (\<not> neg) (prec_f f)
                        else Inr b)
         in
         case rounded of
           Inl err \<Rightarrow> (pre, Panics err h)
         | Inr b1 \<Rightarrow>
             (let scale1 = (if prec_f f > 0
                            then scale (h x) - (int (length b) - int (length b1))
                            else scale (h x));
                  adj = - scale1 + (int (length b1) - 1)
              in
              if style \<noteq> sci_style \<and> scale1 \<ge> 0 \<and> (style = plain_style \<or> adj \<ge> - 6) then
                (pre @ formatPlain f b1 scale1, Returns h)
              else if style \<noteq> sci_style \<and> style = plain_style \<and> scale1 < 0 then
                (pre @ b1 @ zeros (- scale1), Returns h)
              else (pre @ formatSci f b1 adj e, Returns h))))"

text \<open>\<^verbatim>\<open>func (x *Big) String() string\<close>: the text.\<close>

definition String :: "ptr \<Rightarrow> heap \<Rightarrow> string" where
  "String x h =
     fst (format \<lparr>sign_f = CHR 0x00, prec_f = noPrec, width_f = noWidth\<rparr> x normal_style
            CHR ''e'' h)"

section \<open>Decimals and predicates used in the statements\<close>


definition withTraps :: "Condition \<Rightarrow> Big \<Rightarrow> Big" where
  "withTraps c x = x\<lparr>Context := (Context x)\<lparr>Traps := c\<rparr>\<rparr>"

definition withRounding :: "RoundingMode \<Rightarrow> Big \<Rightarrow> Big" where
  "withRounding m x = x\<lparr>Context := (Context x)\<lparr>RoundingMode := m\<rparr>\<rparr>"


definition isNaN :: "form \<Rightarrow> bool" where
  "isNaN f \<longleftrightarrow> f = snan \<or> f = qnan"

text \<open>The error that \<open>checkNaNs\<close> builds for the operation called \<open>op\<close>.\<close>

definition nanError :: "string \<Rightarrow> error" where
  "nanError op = ErrNaN (op @ '' with NaN as an operand'')"

text \<open>
  What a call with a NaN operand leaves behind, by operating mode of the receiver \<open>z\<close>:
  in Go mode the call panics with the NaN error, the receiver already quiet-NaN and its
  context untouched; in GDA mode it returns, the receiver is quiet-NaN, the condition word is
  \<open>InvalidOperation\<close> for a signaling operand and empty otherwise, and the NaN error is
  recorded only when \<open>InvalidOperation\<close> was raised and is trapped; in an invalid mode the
  receiver is quiet-NaN and \<open>InvalidContext\<close> is added.
\<close>

definition NaN_outcome :: "string \<Rightarrow> ptr \<Rightarrow> bool \<Rightarrow> heap \<Rightarrow> outcome \<Rightarrow> bool" where
  "NaN_outcome op z signalling h r =
     (let ctx = Context (h z); cond = (if signalling then InvalidOperation else 0) in
      if OperatingMode ctx = Go then
        r = Panics (nanError op) (set_form z qnan h)
      else if OperatingMode ctx = GDA then
        returns r \<and> form (heap_of r z) = qnan
        \<and> Conditions (Context (heap_of r z)) = cond
        \<and> Err (Context (heap_of r z)) =
            (if signalling \<and> InvalidOperation AND Traps ctx \<noteq> 0 then Some (nanError op)
             else Err ctx)
      else
        returns r \<and> form (heap_of r z) = qnan
        \<and> Conditions (Context (heap_of r z)) = cond OR InvalidContext)"

section \<open>Auxiliary facts\<close>

lemma newBig_sel:
  "form newBig = zero_form" "compact newBig = 0" "scale newBig = 0" "unscaled newBig = 0"
  "Context newBig = newContext"
  by (simp_all add: newBig_def)

lemma New_1_0: "New 1 0 = newBig\<lparr>compact := 1, form := finite_form\<rparr>"
  by (simp add: New_def SetMantScale_def set_defs Inflated_def MinInt64_def newBig_def)

lemma SetNaN_new:
  "SetNaN 0 sg (\<lambda>p. newBig) 0 = newBig\<lparr>form := (if sg then snan else qnan)\<rparr>"
  by (simp add: SetNaN_def set_defs)

lemma round_ctx_not_finite:
  "form (h z) \<noteq> finite_form \<Longrightarrow> round_ctx z h = Returns h"
  by (simp add: round_ctx_def Round_def Let_def)

lemma checkNaNs_NaN:
  assumes "assignable (form (h x))" "assignable (form (h y))"
    and "isNaN (form (h x)) \<or> isNaN (form (h y))"
  shows "checkNaNs z x y op h =
           (if form (h x) = snan \<or> form (h y) = snan then InvalidOperation else 0,
            Some (nanError op), set_form z qnan h)"
  using assms
  unfolding assignable_def isNaN_def checkNaNs_def nanError_def Let_def
  by (elim disjE insertE emptyE; simp add: form_defs)

lemma NaN_not_finite: "isNaN f \<Longrightarrow> f \<noteq> finite_form"
  by (auto simp: isNaN_def form_defs)

lemma NaN_not_both_finite:
  "isNaN fx \<or> isNaN fy \<Longrightarrow> \<not> (fx = finite_form \<and> fy = finite_form)"
  by (auto simp: isNaN_def form_defs)

lemma signal_NaN_outcome:
  "NaN_outcome op z sg h
     (signal z (if sg then InvalidOperation else 0) (Some (nanError op)) (set_form z qnan h))"
  by (simp add: NaN_outcome_def signal_def Let_def set_defs nanError_def returns_def heap_of_def
      condition_defs GDA_def Go_def)

lemma Add_NaN:
  assumes "assignable (form (h x))" "assignable (form (h y))"
    and "isNaN (form (h x)) \<or> isNaN (form (h y))"
  shows "Add z x y h = signal z (if form (h x) = snan \<or> form (h y) = snan then InvalidOperation else 0)
           (Some (nanError ''addition'')) (set_form z qnan h)"
  unfolding Add_def if_not_P [OF NaN_not_both_finite [OF assms(3)]] checkNaNs_NaN [OF assms]
  by simp

lemma Sub_NaN:
  assumes "assignable (form (h x))" "assignable (form (h y))"
    and "isNaN (form (h x)) \<or> isNaN (form (h y))"
  shows "Sub z x y h = signal z (if form (h x) = snan \<or> form (h y) = snan then InvalidOperation else 0)
           (Some (nanError ''subtraction'')) (set_form z qnan h)"
  unfolding Sub_def if_not_P [OF NaN_not_both_finite [OF assms(3)]] checkNaNs_NaN [OF assms]
  by simp

lemma Mul_NaN:
  assumes "assignable (form (h x))" "assignable (form (h y))"
    and "isNaN (form (h x)) \<or> isNaN (form (h y))"
  shows "Mul z x y h = signal z (if form (h x) = snan \<or> form (h y) = snan then InvalidOperation else 0)
           (Some (nanError ''multiplication'')) (set_form z qnan h)"
  unfolding Mul_def if_not_P [OF NaN_not_both_finite [OF assms(3)]] checkNaNs_NaN [OF assms]
  by simp

lemma Quo_NaN:
  assumes "assignable (form (h x))" "assignable (form (h y))"
    and "isNaN (form (h x)) \<or> isNaN (form (h y))"
  shows "Quo qc qb z x y h = signal z (if form (h x) = snan \<or> form (h y) = snan then InvalidOperation else 0)
           (Some (nanError ''division'')) (set_form z qnan h)"
  unfolding Quo_def if_not_P [OF NaN_not_both_finite [OF assms(3)]] checkNaNs_NaN [OF assms]
  by simp

lemma Abs_NaN:
  assumes "assignable (form (h x))" and "isNaN (form (h x))"
  shows "Abs z x h = signal z (if form (h x) = snan then InvalidOperation else 0)
           (Some (nanError ''abs'')) (set_form z qnan h)"
  unfolding Abs_def if_not_P [OF NaN_not_finite [OF assms(2)]]
    checkNaNs_NaN [of h x x, OF assms(1) assms(1) disjI1 [OF assms(2)]]
  by simp

lemma Neg_NaN:
  assumes "assignable (form (h x))" and "isNaN (form (h x))"
  shows "Neg z x h = signal z (if form (h x) = snan then InvalidOperation else 0)
           (Some (nanError ''negation'')) (set_form z qnan h)"
  unfolding Neg_def if_not_P [OF NaN_not_finite [OF assms(2)]]
    checkNaNs_NaN [of h x x, OF assms(1) assms(1) disjI1 [OF assms(2)]]
  by simp

lemma Cmp_NaN:
  assumes "assignable (form (h z))" "assignable (form (h x))"
    and "isNaN (form (h z)) \<or> isNaN (form (h x))" and "z \<noteq> x"
  shows "Cmp z x h = (signal z (if form (h z) = snan \<or> form (h x) = snan then InvalidOperation else 0)
           (Some (nanError ''comparison'')) (set_form z qnan h), 0)"
  using assms by (simp add: Cmp_def checkNaNs_NaN)

lemma subCompact_self:
  "form (subCompact z x x h z) = zero_form"
  by (simp add: subCompact_def checked_Sub_def in64_def wrap64_def MinInt64_def MaxInt64_def
      set_defs Let_def)

lemma subBig_self:
  "form (subBig z x x h z) = zero_form"
  by (simp add: subBig_def set_defs Let_def)


lemma Sub_self_zero_form:
  assumes "form (h x) = zero_form \<or> form (h x) = nzero"
  shows "Sub z x x h = Returns (set_form z zero_form h)"
  using assms
  by (auto simp add: Sub_def checkNaNs_def form_defs Let_def)

lemma xflow_over_GDA:
  assumes "OperatingMode (Context (h z)) = GDA"
  shows "\<exists>h'. xflow z True neg h = Returns h' \<and> form (h' z) = (if neg then ninf else pinf)
           \<and> Conditions (Context (h' z)) = Overflow OR Inexact OR Rounded"
  using assms
  by (simp add: xflow_def signal_def Let_def GDA_def Go_def set_defs)

lemma andThen_round_ctx_not_finite:
  assumes "r = Returns h'" and "form (h' z) \<noteq> finite_form"
  shows "andThen r (round_ctx z) = Returns h'"
  using assms by (simp add: andThen_def round_ctx_not_finite)

lemma New_pos: "v \<noteq> 0 \<Longrightarrow> v \<noteq> Inflated \<Longrightarrow>
  New v s = newBig\<lparr>scale := s, compact := v, form := finite_form\<rparr>"
  by (simp add: New_def SetMantScale_def set_defs Let_def)

lemma checkNaNs_none:
  assumes "form (h x) = finite_form \<or> form (h x) = zero_form \<or> form (h x) = nzero
           \<or> form (h x) = pinf \<or> form (h x) = ninf"
    and "form (h y) = finite_form \<or> form (h y) = zero_form \<or> form (h y) = nzero
           \<or> form (h y) = pinf \<or> form (h y) = ninf"
  shows "checkNaNs z x y op h = (0, None, h)"
  using assms unfolding checkNaNs_def Let_def
  by (elim disjE; simp add: form_defs)

lemma signal_GDA:
  assumes "OperatingMode (Context (h z)) = GDA"
  shows "returns (signal z c e h) \<and> form (heap_of (signal z c e h) z) = form (h z)
         \<and> Conditions (Context (heap_of (signal z c e h) z)) = c"
  using assms
  by (simp add: signal_def Let_def GDA_def Go_def set_defs returns_def heap_of_def)



lemma carry_nines:
  "i \<le> length b \<Longrightarrow> \<forall>j<i. b ! j = CHR ''9'' \<Longrightarrow>
     carry i b = replicate i CHR ''0'' @ drop i b"
proof (induction i arbitrary: b)
  case 0
  then show ?case by simp
next
  case (Suc i)
  let ?b = "b[i := CHR ''0'']"
  have "carry (Suc i) b = carry i ?b"
    using Suc.prems by simp
  also have "\<dots> = replicate i CHR ''0'' @ drop i ?b"
    using Suc.prems by (intro Suc.IH) auto
  also have "drop i ?b = CHR ''0'' # drop (Suc i) b"
    using Suc.prems by (simp add: drop_update_cancel Cons_nth_drop_Suc [symmetric] upd_conv_take_nth_drop)
  finally show ?case
    by (simp add: replicate_app_Cons_same)
qed

lemma roundString_full_carry:
  assumes "0 < k" and "k < length b" and "\<forall>j<k. b ! j = CHR ''9''"
    and "\<not> allZeros (drop k b)"
  shows "roundString b AwayFromZero pos (int k) = Inr (CHR ''1'' # replicate k CHR ''0'')"
proof -
  let ?b1 = "take (k + 1) b"
  let ?i = "k - 1"
  let ?b2 = "?b1[?i := incr (?b1 ! ?i)]"
  have i: "?i < length ?b1" "?b1 ! ?i = CHR ''9''" "nat (int k - 1) = ?i" "nat (int k) = k"
    using assms(1-3) by auto
  have b2i: "byte (?b2 ! ?i) = byte CHR ''9'' + 1"
    using i by (simp add: incr_def byte_def)
  let ?b3 = "?b2[?i := CHR ''0'']"
  have n: "\<forall>j<?i. ?b3 ! j = CHR ''9''"
    using assms(1-3) by simp
  have c: "carry ?i ?b3 = replicate ?i CHR ''0'' @ drop ?i ?b3"
    using n i by (intro carry_nines) auto
  have len: "length ?b3 = k + 1"
    using assms(2) by simp
  have dr: "drop ?i ?b3 = [CHR ''0'', b ! k]"
  proof (rule nth_equalityI)
    show "length (drop ?i ?b3) = length [CHR ''0'', b ! k]"
      using assms(1) len by simp
  next
    fix j assume "j < length (drop ?i ?b3)"
    then have "j = 0 \<or> j = 1"
      using assms(1) len by auto
    then show "drop ?i ?b3 ! j = [CHR ''0'', b ! k] ! j"
      using assms(1,2) by auto
  qed
  have c0: "carry ?i ?b3 = replicate k CHR ''0'' @ [b ! k]"
    using c dr assms(1) by (cases k) (simp_all add: replicate_app_Cons_same)
  have z: "(carry ?i ?b3) ! 0 = CHR ''0''" "take k (carry ?i ?b3) = replicate k CHR ''0''"
    using assms(1) unfolding c0 by (simp_all add: nth_append)
  show ?thesis
    using assms(1,2,4) i b2i z
    by (simp add: roundString_def Let_def rounding_defs)
qed




















lemma SetString_empty:
  assumes "OperatingMode (Context (h z)) = GDA"
  shows "snd (SetString z [] h) = False
         \<and> Conditions (Context (heap_of (fst (SetString z [] h)) z)) = ConversionSyntax
         \<and> form (heap_of (fst (SetString z [] h)) z) = form (h z)"
  using signal_GDA [of h z ConversionSyntax, OF assms]
  by (simp add: SetString_def)

lemma SetString_long_malformed:
  "snd (SetString 0 ''12345678901234567890x'' (store3 (inGDA newBig) newBig newBig)) = False
   \<and> form (heap_of (fst (SetString 0 ''12345678901234567890x''
         (store3 (inGDA newBig) newBig newBig))) 0) = finite_form"
  by (simp add: SetString_def SetString_exponent_def SetString_radix_def SetString_digits_def
      ParseSpecial_def LastIndexAny_def BigInt_SetString_def isDigit_def toLower_def byte_def
      Let_def signal_def store3_def inGDA_def newBig_sel newContext_def set_defs GDA_def Go_def
      condition_defs heap_of_def)






lemma Mul_overflow_GDA:
  assumes "form (h x) = finite_form" and "form (h y) = finite_form"
    and "OperatingMode (Context (h z)) = GDA"
    and "in32 (scale (h x))" and "in32 (scale (h y))"
    and "scale (h x) + scale (h y) > MaxInt32"
  shows "returns (Mul z x y h)
         \<and> form (heap_of (Mul z x y h) z) = ninf
         \<and> Conditions (Context (heap_of (Mul z x y h) z)) = Overflow OR Inexact OR Rounded"
proof -
  let ?h1 = "set_form z finite_form h"
  have pos: "scale (h x) > 0"
    using assms(4-6) by (simp add: in32_def)
  have nok: "\<not> in32 (scale (h x) + scale (h y))"
    using assms(6) by (simp add: in32_def)
  have g: "OperatingMode (Context (?h1 z)) = GDA"
    using assms(3) by (simp add: set_defs)
  have sc: "scale (?h1 x) = scale (h x)" "scale (?h1 y) = scale (h y)"
    by (simp_all add: set_defs)
  have nn: "ninf \<noteq> finite_form"
    by (simp add: form_defs)
  show ?thesis
  proof (cases "isCompact (?h1 x) \<and> isCompact (?h1 y)")
    case True
    have "mulCompact z x y ?h1 = xflow z True True ?h1"
      using pos nok by (simp add: mulCompact_def checked_Add32_def sc)
    moreover obtain h' where "xflow z True True ?h1 = Returns h'" "form (h' z) = ninf"
      "Conditions (Context (h' z)) = Overflow OR Inexact OR Rounded"
      using xflow_over_GDA [of ?h1 z True, OF g] by auto
    moreover have "Mul z x y h = andThen (mulCompact z x y ?h1) (round_ctx z)"
      using assms(1,2) True by (auto simp: Mul_def Let_def)
    ultimately show ?thesis
      using nn
      by (simp add: andThen_round_ctx_not_finite returns_def heap_of_def)
  next
    case False
    let ?h2 = "set_compact z Inflated (set_unscaled z
        ((if isCompact (?h1 x) then compact (?h1 x) else unscaled (?h1 x)) *
         (if isCompact (?h1 y) then compact (?h1 y) else unscaled (?h1 y))) ?h1)"
    have g2: "OperatingMode (Context (?h2 z)) = GDA"
      using assms(3) by (simp add: set_defs)
    have sc2: "scale (?h2 x) = scale (h x)" "scale (?h2 y) = scale (h y)"
      by (simp_all add: set_defs)
    have "mulBig z x y ?h1 = xflow z True True ?h2"
      using pos nok by (simp add: mulBig_def checked_Add32_def sc2 Let_def)
    moreover obtain h' where "xflow z True True ?h2 = Returns h'" "form (h' z) = ninf"
      "Conditions (Context (h' z)) = Overflow OR Inexact OR Rounded"
      using xflow_over_GDA [of ?h2 z True, OF g2] by auto
    moreover have "Mul z x y h = andThen (mulBig z x y ?h1) (round_ctx z)"
      using assms(1,2) False by (auto simp: Mul_def Let_def)
    ultimately show ?thesis
      using nn
      by (simp add: andThen_round_ctx_not_finite returns_def heap_of_def)
  qed
qed

section \<open>Properties\<close>

text \<open>
  C10, as stated: after \<open>Abs(z, x)\<close> with \<open>x\<close> an infinity and \<open>z\<close> a distinct decimal, the
  returned \<open>z\<close> does not hold the absolute value of \<open>x\<close>. It fails when \<open>z\<close> is positive
  infinity already: with \<open>z = +Inf\<close> and \<open>x = -Inf\<close> the returned \<open>z\<close> is \<open>+Inf\<close>, which is
  the absolute value of \<open>x\<close>.
\<close>

theorem Abs_inf_counterexample:
  "form (store3 (SetInf 0 False (\<lambda>p. newBig) 0) (SetInf 0 True (\<lambda>p. newBig) 0) newBig 0) = pinf
   \<and> form (store3 (SetInf 0 False (\<lambda>p. newBig) 0) (SetInf 0 True (\<lambda>p. newBig) 0) newBig 1) = ninf
   \<and> returns (Abs 0 1
         (store3 (SetInf 0 False (\<lambda>p. newBig) 0) (SetInf 0 True (\<lambda>p. newBig) 0) newBig))
   \<and> valueOf (heap_of (Abs 0 1
         (store3 (SetInf 0 False (\<lambda>p. newBig) 0) (SetInf 0 True (\<lambda>p. newBig) 0) newBig)) 0)
       = Infinite False"
  by (simp add: Abs_def checkNaNs_def store3_def SetInf_def set_defs newBig_sel form_defs
      returns_def heap_of_def valueOf_def)

text \<open>
  C10, amended: when the operand \<open>x\<close> of \<open>Abs(z, x)\<close> is an infinity and \<open>z\<close> is a distinct
  decimal, \<open>Abs\<close> writes to the operand and not to the receiver: the call returns, the only
  change to the store is that \<open>x\<close> becomes positive infinity, and \<open>z\<close> keeps every field
  (form, magnitude, scale and context). So the returned \<open>z\<close> is positive infinity, the
  absolute value of \<open>x\<close>, only when it was positive infinity before the call.
\<close>

theorem Abs_inf_mutates_operand:
  assumes "form (h x) = pinf \<or> form (h x) = ninf" and "z \<noteq> x"
  shows "Abs z x h = Returns (h(x := (h x)\<lparr>form := pinf\<rparr>))
         \<and> heap_of (Abs z x h) z = h z
         \<and> form (heap_of (Abs z x h) x) = pinf
         \<and> (form (heap_of (Abs z x h) z) = pinf) = (form (h z) = pinf)"
  using assms
  by (auto simp: Abs_def checkNaNs_def set_defs form_defs heap_of_def)

theorem Abs_inf_mutates_operand_witness:
  "form (store3 newBig (SetInf 0 True (\<lambda>p. newBig) 0) newBig 1) = ninf
   \<and> Abs 0 1 (store3 newBig (SetInf 0 True (\<lambda>p. newBig) 0) newBig)
       = Returns (store3 newBig (SetInf 0 False (\<lambda>p. newBig) 0) newBig)
   \<and> form (heap_of (Abs 0 1 (store3 newBig (SetInf 0 True (\<lambda>p. newBig) 0) newBig)) 0)
       = zero_form
   \<and> zero_form \<noteq> pinf"
  using Abs_inf_mutates_operand
    [of "store3 newBig (SetInf 0 True (\<lambda>p. newBig) 0) newBig" 1 0]
  by (auto simp: store3_def SetInf_def set_defs newBig_def form_defs fun_eq_iff)




text \<open>
  C3, where the code departs from it: when the receiver is the dividend itself
  (\<^verbatim>\<open>x.Quo(x, y)\<close>), \<open>x\<close> finite and \<open>y\<close> zero, the call returns the correctly signed
  infinity but the context is untouched, so \<open>DivisionByZero\<close> is not raised in any mode:
  \<open>x.form\<close> is read after \<open>z.form\<close> was written. (With a receiver distinct from the dividend
  the condition is raised in GDA mode: \<open>Quo_finite_by_zero\<close>, \<open>Quo_zero_by_zero\<close>.)
\<close>

theorem Quo_aliased_dividend:
  assumes "form (h x) = finite_form" and "form (h y) = zero_form \<or> form (h y) = nzero"
  shows "Quo qc qb x x y h =
           Returns (set_form x (if Signbit (h x) \<noteq> Signbit (h y) then ninf else pinf) h)
         \<and> Conditions (Context (heap_of (Quo qc qb x x y h) x)) = Conditions (Context (h x))"
proof -
  have c: "checkNaNs x x y ''division'' h = (0, None, h)"
    using assms by (intro checkNaNs_none) auto
  have xy: "x \<noteq> y"
    using assms by (auto simp: form_defs)
  show ?thesis
    using assms(2)
  proof
    assume y: "form (h y) = zero_form"
    show ?thesis
      using assms(1) y xy unfolding Quo_def c
      by (simp add: Let_def set_defs form_defs word_le_nat_alt heap_of_def Signbit_def)
  next
    assume y: "form (h y) = nzero"
    show ?thesis
      using assms(1) y xy unfolding Quo_def c
      by (simp add: Let_def set_defs form_defs word_le_nat_alt heap_of_def Signbit_def)
  qed
qed

theorem Quo_aliased_dividend_witness:
  "form (store3 (inGDA (New 1 0)) newBig newBig 0) = finite_form
   \<and> form (store3 (inGDA (New 1 0)) newBig newBig 1) = zero_form
   \<and> OperatingMode (Context (store3 (inGDA (New 1 0)) newBig newBig 0)) = GDA
   \<and> form (heap_of (Quo (\<lambda>z x y. Returns) (\<lambda>z x y. Returns) 0 0 1 (store3 (inGDA (New 1 0)) newBig newBig)) 0) = pinf
   \<and> Conditions (Context (heap_of (Quo (\<lambda>z x y. Returns) (\<lambda>z x y. Returns) 0 0 1 (store3 (inGDA (New 1 0)) newBig newBig)) 0)) = 0"
  using Quo_aliased_dividend [of "store3 (inGDA (New 1 0)) newBig newBig" 0 1
      "\<lambda>z x y. Returns" "\<lambda>z x y. Returns"]
  by (simp add: store3_def New_1_0 inGDA_def newBig_sel newContext_def Signbit_def isCompact_def
      Inflated_def MinInt64_def form_defs heap_of_def set_defs)

text \<open>
  C4, as stated, fails in two ways: comparing a signaling NaN with itself returns 0 and
  changes nothing, and in GDA mode with an empty trap mask \<open>Add\<close> with a signaling NaN
  returns normally and records no error.
\<close>

theorem NaN_operands_counterexample:
  "form (store3 (inGDA (SetNaN 0 True (\<lambda>p. newBig) 0)) (SetNaN 0 True (\<lambda>p. newBig) 0) (New 1 0) 0) = snan
   \<and> Cmp 0 0 (store3 (inGDA (SetNaN 0 True (\<lambda>p. newBig) 0)) (SetNaN 0 True (\<lambda>p. newBig) 0) (New 1 0))
       = (Returns (store3 (inGDA (SetNaN 0 True (\<lambda>p. newBig) 0)) (SetNaN 0 True (\<lambda>p. newBig) 0) (New 1 0)), 0)
   \<and> form (store3 (inGDA newBig) (SetNaN 0 True (\<lambda>p. newBig) 0) (New 1 0) 1) = snan
   \<and> returns (Add 0 1 2 (store3 (inGDA newBig) (SetNaN 0 True (\<lambda>p. newBig) 0) (New 1 0)))
   \<and> Err (Context (heap_of (Add 0 1 2 (store3 (inGDA newBig) (SetNaN 0 True (\<lambda>p. newBig) 0) (New 1 0))) 0)) = None"
  by (simp add: Cmp_def Add_def checkNaNs_def signal_def store3_def inGDA_def SetNaN_new New_1_0
      newBig_sel newContext_def set_defs form_defs condition_defs GDA_def Go_def Let_def
      returns_def heap_of_def)

text \<open>
  C4, amended: for \<open>Add\<close>, \<open>Sub\<close>, \<open>Mul\<close>, \<open>Quo\<close>, \<open>Abs\<close>, \<open>Neg\<close>, and for \<open>Cmp\<close> when
  the receiver and the argument are distinct decimals, a NaN operand gives \<open>NaN_outcome\<close>:
  the receiver becomes quiet-NaN; in GDA mode \<open>Conditions\<close> is \<open>InvalidOperation\<close> if an
  operand is signaling and empty if the NaN operands are all quiet, and the NaN error naming
  the operation is recorded when \<open>InvalidOperation\<close> is raised and trapped; in Go mode the
  call panics with that error. \<open>Cmp\<close> of a decimal with itself returns 0 and signals nothing.
\<close>

theorem NaN_operands:
  assumes "assignable (form (h z))" "assignable (form (h x))" "assignable (form (h y))"
  shows "(isNaN (form (h x)) \<or> isNaN (form (h y)) \<longrightarrow>
            NaN_outcome ''addition'' z (form (h x) = snan \<or> form (h y) = snan) h (Add z x y h)
          \<and> NaN_outcome ''subtraction'' z (form (h x) = snan \<or> form (h y) = snan) h (Sub z x y h)
          \<and> NaN_outcome ''multiplication'' z (form (h x) = snan \<or> form (h y) = snan) h (Mul z x y h)
          \<and> NaN_outcome ''division'' z (form (h x) = snan \<or> form (h y) = snan) h (Quo qc qb z x y h))
       \<and> (isNaN (form (h x)) \<longrightarrow>
            NaN_outcome ''abs'' z (form (h x) = snan) h (Abs z x h)
          \<and> NaN_outcome ''negation'' z (form (h x) = snan) h (Neg z x h))
       \<and> ((isNaN (form (h z)) \<or> isNaN (form (h x))) \<and> z \<noteq> x \<longrightarrow>
            NaN_outcome ''comparison'' z (form (h z) = snan \<or> form (h x) = snan) h (fst (Cmp z x h))
          \<and> snd (Cmp z x h) = 0)
       \<and> Cmp x x h = (Returns h, 0)"
proof -
  have bin: "NaN_outcome ''addition'' z (form (h x) = snan \<or> form (h y) = snan) h (Add z x y h)
          \<and> NaN_outcome ''subtraction'' z (form (h x) = snan \<or> form (h y) = snan) h (Sub z x y h)
          \<and> NaN_outcome ''multiplication'' z (form (h x) = snan \<or> form (h y) = snan) h (Mul z x y h)
          \<and> NaN_outcome ''division'' z (form (h x) = snan \<or> form (h y) = snan) h (Quo qc qb z x y h)"
    if "isNaN (form (h x)) \<or> isNaN (form (h y))"
    using that assms
    by (simp only: Add_NaN Sub_NaN Mul_NaN Quo_NaN signal_NaN_outcome simp_thms)
  have un: "NaN_outcome ''abs'' z (form (h x) = snan) h (Abs z x h)
          \<and> NaN_outcome ''negation'' z (form (h x) = snan) h (Neg z x h)"
    if "isNaN (form (h x))"
    using that assms
    by (simp only: Abs_NaN Neg_NaN signal_NaN_outcome simp_thms)
  have cmp: "NaN_outcome ''comparison'' z (form (h z) = snan \<or> form (h x) = snan) h (fst (Cmp z x h))
          \<and> snd (Cmp z x h) = 0"
    if "isNaN (form (h z)) \<or> isNaN (form (h x))" "z \<noteq> x"
    using that assms
    by (simp only: Cmp_NaN signal_NaN_outcome simp_thms fst_conv snd_conv)
  have self: "Cmp x x h = (Returns h, 0)"
    by (simp add: Cmp_def)
  from bin un cmp self show ?thesis
    by blast
qed

theorem NaN_operands_witness:
  "assignable (form (store3 (withTraps InvalidOperation (inGDA newBig)) (SetNaN 0 True (\<lambda>p. newBig) 0) (New 1 0) 0))
   \<and> assignable (form (store3 (withTraps InvalidOperation (inGDA newBig)) (SetNaN 0 True (\<lambda>p. newBig) 0) (New 1 0) 1))
   \<and> assignable (form (store3 (withTraps InvalidOperation (inGDA newBig)) (SetNaN 0 True (\<lambda>p. newBig) 0) (New 1 0) 2))
   \<and> isNaN (form (store3 (withTraps InvalidOperation (inGDA newBig)) (SetNaN 0 True (\<lambda>p. newBig) 0) (New 1 0) 1))
   \<and> NaN_outcome ''addition'' 0 True
        (store3 (withTraps InvalidOperation (inGDA newBig)) (SetNaN 0 True (\<lambda>p. newBig) 0) (New 1 0))
        (Add 0 1 2 (store3 (withTraps InvalidOperation (inGDA newBig)) (SetNaN 0 True (\<lambda>p. newBig) 0) (New 1 0)))
   \<and> NaN_outcome ''abs'' 0 True
        (store3 (withTraps InvalidOperation (inGDA newBig)) (SetNaN 0 True (\<lambda>p. newBig) 0) (New 1 0))
        (Abs 0 1 (store3 (withTraps InvalidOperation (inGDA newBig)) (SetNaN 0 True (\<lambda>p. newBig) 0) (New 1 0)))
   \<and> NaN_outcome ''comparison'' 0 True
        (store3 (withTraps InvalidOperation (inGDA newBig)) (SetNaN 0 True (\<lambda>p. newBig) 0) (New 1 0))
        (fst (Cmp 0 1 (store3 (withTraps InvalidOperation (inGDA newBig)) (SetNaN 0 True (\<lambda>p. newBig) 0) (New 1 0))))
   \<and> Err (Context (heap_of (Add 0 1 2 (store3 (withTraps InvalidOperation (inGDA newBig)) (SetNaN 0 True (\<lambda>p. newBig) 0) (New 1 0))) 0))
       = Some (ErrNaN ''addition with NaN as an operand'')"
proof -
  let ?H = "store3 (withTraps InvalidOperation (inGDA newBig)) (SetNaN 0 True (\<lambda>p. newBig) 0) (New 1 0)"
  have a: "assignable (form (?H 0))" "assignable (form (?H 1))" "assignable (form (?H 2))"
    by (simp_all add: store3_def withTraps_def inGDA_def SetNaN_new New_1_0 newBig_sel
        assignable_def form_defs)
  have n: "isNaN (form (?H 1))" "form (?H 1) = snan" "form (?H 0) \<noteq> snan"
    by (simp_all add: store3_def withTraps_def inGDA_def SetNaN_new newBig_sel isNaN_def form_defs)
  have g: "OperatingMode (Context (?H 0)) = GDA" "OperatingMode (Context (?H 0)) \<noteq> Go"
    "InvalidOperation AND Traps (Context (?H 0)) \<noteq> 0"
    by (simp_all add: store3_def withTraps_def inGDA_def newBig_sel newContext_def GDA_def Go_def
        condition_defs)
  from NaN_operands [OF a, of "\<lambda>z x y h. Returns h" "\<lambda>z x y h. Returns h"] n
  have *: "NaN_outcome ''addition'' 0 True ?H (Add 0 1 2 ?H)"
    "NaN_outcome ''abs'' 0 True ?H (Abs 0 1 ?H)"
    "NaN_outcome ''comparison'' 0 True ?H (fst (Cmp 0 1 ?H))"
    by simp_all
  from *(1) g have "Err (Context (heap_of (Add 0 1 2 ?H) 0)) = Some (ErrNaN ''addition with NaN as an operand'')"
    by (simp add: NaN_outcome_def Let_def nanError_def)
  with a n * show ?thesis
    by simp
qed


text \<open>
  C5, where the code departs from it: in GDA mode, for finite operands whose scales add up
  to more than \<open>MaxInt32\<close>, \<open>Mul\<close> returns with \<open>Overflow\<close>, \<open>Inexact\<close> and \<open>Rounded\<close>
  raised, but the result is negative infinity whatever the signs of the operands; the
  witness multiplies two positive decimals.
\<close>

theorem Mul_scale_overflow:
  assumes "form (h x) = finite_form" and "form (h y) = finite_form"
    and "OperatingMode (Context (h z)) = GDA"
    and "in32 (scale (h x))" and "in32 (scale (h y))"
    and "scale (h x) + scale (h y) > MaxInt32"
  shows "returns (Mul z x y h)
         \<and> form (heap_of (Mul z x y h) z) = ninf
         \<and> Conditions (Context (heap_of (Mul z x y h) z)) = Overflow OR Inexact OR Rounded"
  using assms by (rule Mul_overflow_GDA)

theorem Mul_scale_overflow_witness:
  "form (store3 (inGDA newBig) (New 1 MaxInt32) (New 1 1) 1) = finite_form
   \<and> form (store3 (inGDA newBig) (New 1 MaxInt32) (New 1 1) 2) = finite_form
   \<and> \<not> Signbit (store3 (inGDA newBig) (New 1 MaxInt32) (New 1 1) 1)
   \<and> \<not> Signbit (store3 (inGDA newBig) (New 1 MaxInt32) (New 1 1) 2)
   \<and> returns (Mul 0 1 2 (store3 (inGDA newBig) (New 1 MaxInt32) (New 1 1)))
   \<and> form (heap_of (Mul 0 1 2 (store3 (inGDA newBig) (New 1 MaxInt32) (New 1 1))) 0) = ninf
   \<and> Conditions (Context (heap_of (Mul 0 1 2 (store3 (inGDA newBig) (New 1 MaxInt32) (New 1 1))) 0))
       = Overflow OR Inexact OR Rounded"
  using Mul_scale_overflow [of "store3 (inGDA newBig) (New 1 MaxInt32) (New 1 1)" 1 2 0]
  by (simp add: store3_def New_pos Inflated_def MinInt64_def inGDA_def in32_def MaxInt32_def
      MinInt32_def Signbit_def isCompact_def)

text \<open>
  C6, as stated: under \<open>ToNegativeInf\<close> the difference \<open>x - x\<close> is negative zero. It
  fails: for \<open>x = 1\<close> under \<open>ToNegativeInf\<close> the result is positive zero.
\<close>

theorem Sub_self_counterexample:
  "RoundingMode (Context (store3 (withRounding ToNegativeInf (inGDA newBig)) (New 1 0) newBig 0)) = ToNegativeInf
   \<and> form (store3 (withRounding ToNegativeInf (inGDA newBig)) (New 1 0) newBig 1) = finite_form
   \<and> form (heap_of (Sub 0 1 1 (store3 (withRounding ToNegativeInf (inGDA newBig)) (New 1 0) newBig)) 0) = zero_form
   \<and> zero_form \<noteq> nzero"
proof -
  have f: "form (store3 (withRounding ToNegativeInf (inGDA newBig)) (New 1 0) newBig 1) = finite_form"
    by (simp add: store3_def New_1_0)
  have c: "isCompact (store3 (withRounding ToNegativeInf (inGDA newBig)) (New 1 0) newBig 1)"
    by (simp add: store3_def New_1_0 isCompact_def Inflated_def MinInt64_def set_defs)
  have nf: "zero_form \<noteq> finite_form"
    by (simp add: form_defs)
  have "form (heap_of (Sub 0 1 1 (store3 (withRounding ToNegativeInf (inGDA newBig)) (New 1 0) newBig)) 0) = zero_form"
    using f nf
    by (simp add: Sub_def Let_def round_ctx_not_finite subCompact_self subBig_self heap_of_def)
  moreover have "RoundingMode (Context (store3 (withRounding ToNegativeInf (inGDA newBig)) (New 1 0) newBig 0)) = ToNegativeInf"
    by (simp add: store3_def withRounding_def inGDA_def)
  ultimately show ?thesis
    using f by (simp add: form_defs)
qed

text \<open>
  C6, amended: for every finite \<open>x\<close> (zero included) and every rounding mode,
  \<open>Sub(z, x, x)\<close> returns and yields positive zero.
\<close>

theorem Sub_self_zero:
  assumes "form (h x) = finite_form \<or> form (h x) = zero_form \<or> form (h x) = nzero"
  shows "returns (Sub z x x h) \<and> form (heap_of (Sub z x x h) z) = zero_form"
proof (cases "form (h x) = finite_form")
  case True
  have nf: "zero_form \<noteq> finite_form"
    by (simp add: form_defs)
  show ?thesis
    using True nf
    by (simp add: Sub_def Let_def round_ctx_not_finite subCompact_self subBig_self
        returns_def heap_of_def)
next
  case False
  with assms have "form (h x) = zero_form \<or> form (h x) = nzero"
    by simp
  then show ?thesis
    by (simp add: Sub_self_zero_form returns_def heap_of_def set_defs)
qed

theorem Sub_self_zero_witness:
  "form (store3 (withRounding ToNegativeInf (inGDA newBig)) (New 1 0) newBig 1) = finite_form
   \<and> returns (Sub 0 1 1 (store3 (withRounding ToNegativeInf (inGDA newBig)) (New 1 0) newBig))
   \<and> form (heap_of (Sub 0 1 1 (store3 (withRounding ToNegativeInf (inGDA newBig)) (New 1 0) newBig)) 0) = zero_form"
  using Sub_self_zero [of "store3 (withRounding ToNegativeInf (inGDA newBig)) (New 1 0) newBig" 1 0]
  by (simp add: store3_def New_1_0)

text \<open>
  C8, where the code departs from it: under \<open>ToNearestEven\<close> \<open>roundString\<close> looks only at
  the first discarded digit. When that digit is 5 and the last retained digit is even, the
  string is truncated whatever digits follow the 5, also when the discarded suffix is more
  than half a unit: \<open>''251''\<close> rounded to one digit is \<open>''2''\<close>, not \<open>''3''\<close>. (The carry is
  as claimed: \<open>roundString_full_carry\<close>.)
\<close>

theorem roundString_half_even_first_digit_only:
  assumes "0 < prec" and "prec < int (length b)"
    and "\<forall>c \<in> set b. isDigit c"
    and "b ! nat prec = CHR ''5''"
    and "even (byte (b ! nat (prec - 1)))"
  shows "roundString b ToNearestEven pos prec = Inr (take (nat prec) b)"
proof -
  let ?p = "nat prec"
  have p: "0 < ?p" "?p < length b" "nat (prec - 1) = ?p - 1" "nat (prec - 1) + 1 = ?p"
    using assms(1,2) by auto
  have d: "isDigit (b ! (?p - 1))"
    using assms(3) p by (meson less_imp_diff_less nth_mem)
  have ne: "byte (b ! (?p - 1)) \<noteq> byte CHR ''9'' + 1"
    using d by (simp add: isDigit_def byte_def)
  have t: "take (?p + 1) b ! ?p = b ! ?p" "take (?p + 1) b ! (?p - 1) = b ! (?p - 1)"
    using p by simp_all
  have tt: "take ?p (take (?p + 1) b) = take ?p b"
    by (simp add: min_def)
  show ?thesis
    using assms(1,2,4,5) p ne t tt
    by (auto simp: roundString_def Let_def rounding_defs byte_def)
qed

theorem roundString_half_even_witness:
  "(0::int) < 1 \<and> 1 < int (length ''251'') \<and> list_all isDigit ''251''
   \<and> ''251'' ! nat 1 = CHR ''5'' \<and> even (byte (''251'' ! nat (1 - 1)))
   \<and> roundString ''251'' ToNearestEven True 1 = Inr ''2''"
  using roundString_half_even_first_digit_only [of 1 "''251''" True]
  by (simp add: isDigit_def byte_def)





text \<open>
  C7, where the code departs from it: for an input with more than one radix point (not
  special, without an exponent marker past the first byte) \<open>SetString\<close> in GDA mode returns
  \<open>ok = false\<close> and raises \<open>ConversionSyntax\<close>, but it does not touch the form of the
  receiver: a fresh receiver stays zero instead of becoming NaN. (The empty string behaves
  the same, \<open>SetString_empty\<close>, and a malformed string of more than 19 bytes leaves the
  receiver finite, \<open>SetString_long_malformed\<close>.)
\<close>

theorem SetString_too_many_radix_points:
  assumes "s \<noteq> []" and "ParseSpecial s = Invalid" and "LastIndexAny s ''Ee'' \<le> 0"
    and "2 \<le> count_list s CHR ''.''"
    and "OperatingMode (Context (h z)) = GDA"
  shows "snd (SetString z s h) = False
         \<and> returns (fst (SetString z s h))
         \<and> Conditions (Context (heap_of (fst (SetString z s h)) z)) = ConversionSyntax
         \<and> form (heap_of (fst (SetString z s h)) z) = form (h z)"
proof -
  let ?e = "Some (ErrorString (''SetString: too many '' @ [CHR 0x27, CHR ''.'', CHR 0x27]
                               @ '' in input''))"
  have "SetString z s h = (signal z ConversionSyntax ?e h, False)"
    using assms(1-4)
    by (simp add: SetString_def SetString_exponent_def SetString_radix_def Let_def)
  then show ?thesis
    using signal_GDA [of h z ConversionSyntax ?e, OF assms(5)] by simp
qed

theorem SetString_too_many_radix_points_witness:
  "ParseSpecial ''1.2.3'' = Invalid \<and> LastIndexAny ''1.2.3'' ''Ee'' \<le> 0
   \<and> 2 \<le> count_list ''1.2.3'' CHR ''.''
   \<and> OperatingMode (Context (store3 (inGDA newBig) newBig newBig 0)) = GDA
   \<and> snd (SetString 0 ''1.2.3'' (store3 (inGDA newBig) newBig newBig)) = False
   \<and> Conditions (Context (heap_of (fst (SetString 0 ''1.2.3''
         (store3 (inGDA newBig) newBig newBig))) 0)) = ConversionSyntax
   \<and> form (heap_of (fst (SetString 0 ''1.2.3'' (store3 (inGDA newBig) newBig newBig))) 0)
       = zero_form
   \<and> zero_form \<noteq> qnan \<and> zero_form \<noteq> snan"
proof -
  have p: "ParseSpecial ''1.2.3'' = Invalid"
    by (simp add: ParseSpecial_def Let_def toLower_def byte_def)
  have l: "LastIndexAny ''1.2.3'' ''Ee'' \<le> 0"
    by (simp add: LastIndexAny_def)
  have c: "2 \<le> count_list ''1.2.3'' CHR ''.''"
    by simp
  have g: "OperatingMode (Context (store3 (inGDA newBig) newBig newBig 0)) = GDA"
    "form (store3 (inGDA newBig) newBig newBig 0) = zero_form"
    by (simp_all add: store3_def inGDA_def newBig_sel)
  show ?thesis
    using SetString_too_many_radix_points [of "''1.2.3''" "store3 (inGDA newBig) newBig newBig" 0,
        OF _ p l c g(1)] p l c g
    by (simp add: form_defs)
qed



end
